theory Spec2Isabelle
  imports Main "HOL-Library.Sublist"
begin

section \<open>Values, failures and the host\<close>

text \<open>
  The action is a linear chain of calls into the runner's toolkit (tool cache, HTTP,
  search path). Each function of \<^verbatim>\<open>lekko.ts\<close> and \<^verbatim>\<open>run.ts\<close> is embedded as a
  state transformer over a \<open>world\<close> that records every call it makes, in order, and
  the executable search path. What the outside answers is read from an \<open>env\<close>.
\<close>

text \<open>The \<^verbatim>\<open>Error\<close> interface of \<^verbatim>\<open>./error\<close>: an object with a message.\<close>

record error =
  message :: string

text \<open>
  A value thrown by JavaScript: either an object that carries a string \<^verbatim>\<open>message\<close>
  (every built-in exception does) or any other value.
\<close>

datatype thrown = ErrorShaped string | NotErrorShaped

text \<open>
  Modelled from the spec: \<^verbatim>\<open>isError\<close> of \<^verbatim>\<open>./error\<close>, which is not among the
  sources. The spec speaks of a failure "carrying a human-readable message"; a thrown
  value is an error exactly when it has that shape. On the results of type
  \<^verbatim>\<open>string | Error\<close> the test is the case distinction of the sum \<open>error + string\<close>.
\<close>

definition isError :: "thrown \<Rightarrow> bool" where
  "isError v = (case v of ErrorShaped m \<Rightarrow> True | NotErrorShaped \<Rightarrow> False)"

definition thrown_message :: "thrown \<Rightarrow> string" where
  "thrown_message v = (case v of ErrorShaped m \<Rightarrow> m | NotErrorShaped \<Rightarrow> [])"

datatype 'a outcome = Returned 'a | Threw thrown

record asset =
  name :: string
  url :: string

record release =
  assets :: "asset list"

text \<open>\<^verbatim>\<open>tokenResp\<close>: the token is a string or undefined.\<close>

record tokenResp =
  token :: "string option"

text \<open>The response of \<^verbatim>\<open>fetch\<close>; reading its JSON body may throw.\<close>

record response =
  ok :: bool
  statusText :: string
  json :: "thrown + tokenResp"

type_synonym headers = "(string \<times> string) list"

text \<open>Every call that leaves the program, with the arguments the source passes.\<close>

datatype event =
    Info string
  | SetFailed string
  | AddPath string
  | TcFind string string string
  | Fetch string string headers string
  | ListReleases string "string option" string string nat
  | GetReleaseByTag string "string option" string string string
  | DownloadTool string "string option" "string option" headers
  | ExtractTar string
  | CacheDir string string string string
  | Which string bool
  | ExecSync string

text \<open>The log of a run: the lines written with \<^verbatim>\<open>core.info\<close>, in order.\<close>

fun log_output :: "event list \<Rightarrow> string list" where
  "log_output [] = []"
| "log_output (Info s # evs) = s # log_output evs"
| "log_output (ev # evs) = log_output evs"

text \<open>
  What the host and the remote services answer. A call that can throw returns
  \<open>Inl\<close> of the thrown value. \<open>path_join\<close> is Node's \<^verbatim>\<open>path.join\<close>.
\<close>

record env =
  os_arch :: string
  os_platform :: string
  getInput :: "string \<Rightarrow> string"
  http_proxy :: "string option"
  path_join :: "string \<Rightarrow> string \<Rightarrow> string"
  tc_find :: "string \<Rightarrow> string \<Rightarrow> string \<Rightarrow> thrown + string"
  fetch :: "string \<Rightarrow> string \<Rightarrow> headers \<Rightarrow> string \<Rightarrow> thrown + response"
  list_releases :: "string \<Rightarrow> string option \<Rightarrow> string \<Rightarrow> string \<Rightarrow> nat \<Rightarrow> thrown + release list"
  release_by_tag :: "string \<Rightarrow> string option \<Rightarrow> string \<Rightarrow> string \<Rightarrow> string \<Rightarrow> thrown + release"
  tc_downloadTool :: "string \<Rightarrow> string option \<Rightarrow> string option \<Rightarrow> headers \<Rightarrow> thrown + string"
  tc_extractTar :: "string \<Rightarrow> thrown + string"
  tc_cacheDir :: "string \<Rightarrow> string \<Rightarrow> string \<Rightarrow> string \<Rightarrow> thrown + string"
  io_which :: "string \<Rightarrow> bool \<Rightarrow> string list \<Rightarrow> thrown + string"
  execSync :: "string \<Rightarrow> thrown + string"

record world =
  search_path :: "string list"
  events :: "event list"

type_synonym 'a prog = "world \<Rightarrow> 'a outcome \<times> world"

definition ret :: "'a \<Rightarrow> 'a prog" where
  "ret x = (\<lambda>w. (Returned x, w))"

text \<open>Sequencing: a thrown value ends the chain, as an exception does.\<close>

definition bind :: "'a prog \<Rightarrow> ('a \<Rightarrow> 'b prog) \<Rightarrow> 'b prog" where
  "bind m f = (\<lambda>w. case m w of
                      (Returned x, w') \<Rightarrow> f x w'
                    | (Threw e, w') \<Rightarrow> (Threw e, w'))"

definition lift :: "thrown + 'a \<Rightarrow> 'a prog" where
  "lift r = (\<lambda>w. (case r of Inl e \<Rightarrow> Threw e | Inr v \<Rightarrow> Returned v, w))"

definition emit :: "event \<Rightarrow> unit prog" where
  "emit ev = (\<lambda>w. (Returned (), w\<lparr>events := events w @ [ev]\<rparr>))"

text \<open>An outside call: recorded, then its answer or its exception.\<close>

definition call :: "event \<Rightarrow> thrown + 'a \<Rightarrow> 'a prog" where
  "call ev r = bind (emit ev) (\<lambda>_. lift r)"

text \<open>\<^verbatim>\<open>core.addPath\<close>: prepends to the search path of the process.\<close>

definition addPath :: "string \<Rightarrow> unit prog" where
  "addPath d = (\<lambda>w. (Returned (), w\<lparr>search_path := d # search_path w,
                                      events := events w @ [AddPath d]\<rparr>))"

text \<open>\<^verbatim>\<open>io.which\<close>: resolves a tool on the search path as it is now.\<close>

definition which :: "env \<Rightarrow> string \<Rightarrow> bool \<Rightarrow> string prog" where
  "which env tool check =
     (\<lambda>w. call (Which tool check) (io_which env tool check (search_path w)) w)"

section \<open>String helpers of the runtime\<close>

text \<open>
  \<^verbatim>\<open>String.prototype.indexOf\<close>: the index of the first occurrence, or -1.
\<close>

fun indexOf :: "string \<Rightarrow> string \<Rightarrow> int" where
  "indexOf [] pat = (if pat = [] then 0 else - 1)"
| "indexOf (c # cs) pat =
     (if prefix pat (c # cs) then 0
      else (let r = indexOf cs pat in if r < 0 then - 1 else r + 1))"

text \<open>A number inside a template literal: its decimal digits.\<close>

definition digit_char :: "nat \<Rightarrow> char" where
  "digit_char d = ''0123456789'' ! d"

definition is_digit :: "char \<Rightarrow> bool" where
  "is_digit c = (c \<in> set ''0123456789'')"

fun number_toString :: "nat \<Rightarrow> string" where
  "number_toString n =
     (if n < 10 then [digit_char n]
      else number_toString (n div 10) @ [digit_char (n mod 10)])"

declare number_toString.simps [simp del]

section \<open>lekko.ts\<close>

definition versionPrefix :: string where
  "versionPrefix = ''v''"

definition releaseTagForVersion :: "string \<Rightarrow> string" where
  "releaseTagForVersion version =
     (if indexOf version versionPrefix = 0 then version
      else versionPrefix @ version)"

text \<open>The first asset of the list with the wanted name, as the \<^verbatim>\<open>for\<close> loop finds it.\<close>

fun scan_assets :: "string \<Rightarrow> asset list \<Rightarrow> string option" where
  "scan_assets assetName [] = None"
| "scan_assets assetName (a # as) =
     (if assetName = name a then Some (url a) else scan_assets assetName as)"

text \<open>
  \<^verbatim>\<open>releases[0].assets\<close>: on an empty list \<^verbatim>\<open>releases[0]\<close> is undefined and reading
  a property of it throws a TypeError (the text is V8's).
\<close>

definition undefined_assets :: thrown where
  \<open>undefined_assets = ErrorShaped ''Cannot read properties of undefined (reading 'assets')''\<close>

definition first_assets :: "release list \<Rightarrow> thrown + asset list" where
  "first_assets releases =
     (case releases of
        [] \<Rightarrow> Inl undefined_assets
      | r # rs \<Rightarrow> Inr (assets r))"

definition requestAgent :: "env \<Rightarrow> string option" where
  "requestAgent env =
     (case http_proxy env of
        None \<Rightarrow> None
      | Some p \<Rightarrow> if p = [] then None else Some p)"

text \<open>
  The two \<^verbatim>\<open>switch\<close> statements that open \<^verbatim>\<open>getDownloadURL\<close>, each with its
  \<^verbatim>\<open>default\<close> branch that returns an error. The architecture is looked at first,
  then the platform; \<open>resolvePlatform\<close> gives (architecture, platform).
\<close>

definition resolveArchitecture :: "string \<Rightarrow> error + string" where
  \<open>resolveArchitecture arch =
     (if arch = ''x64'' then Inr ''x86_64''
      else if arch = ''arm64'' then Inr ''arm64''
      else Inl \<lparr>message = ''The "'' @ arch @ ''" architecture is not supported with a Lekko release.''\<rparr>)\<close>

definition resolveOS :: "string \<Rightarrow> error + string" where
  \<open>resolveOS plat =
     (if plat = ''linux'' then Inr ''Linux''
      else if plat = ''darwin'' then Inr ''Darwin''
      else Inl \<lparr>message = ''The "'' @ plat @ ''" platform is not supported with a Lekko release.''\<rparr>)\<close>

definition resolvePlatform :: "string \<Rightarrow> string \<Rightarrow> error + (string \<times> string)" where
  "resolvePlatform arch plat =
     (case resolveArchitecture arch of
        Inl err \<Rightarrow> Inl err
      | Inr architecture \<Rightarrow>
          (case resolveOS plat of
             Inl err \<Rightarrow> Inl err
           | Inr platform \<Rightarrow> Inr (architecture, platform)))"

definition assetName_of :: "string \<Rightarrow> string \<Rightarrow> string" where
  "assetName_of platform architecture =
     ''lekko_'' @ platform @ ''_'' @ architecture @ ''.tar.gz''"

text \<open>\<^verbatim>\<open>getDownloadURL\<close> of \<^verbatim>\<open>src/lekko.ts\<close>.\<close>

definition getDownloadURL :: "env \<Rightarrow> string \<Rightarrow> string \<Rightarrow> (error + string) prog" where
  \<open>getDownloadURL env version githubToken =
     (case resolvePlatform (os_arch env) (os_platform env) of
        Inl err \<Rightarrow> ret (Inl err)
      | Inr (architecture, platform) \<Rightarrow>
          (let assetName = assetName_of platform architecture in
           if version = ''latest'' then
             bind (call (ListReleases githubToken (requestAgent env) ''lekkodev'' ''cli'' 1)
                        (list_releases env githubToken (requestAgent env) ''lekkodev'' ''cli'' 1))
               (\<lambda>releases. bind (lift (first_assets releases))
                 (\<lambda>as. case scan_assets assetName as of
                         Some u \<Rightarrow> ret (Inr u)
                       | None \<Rightarrow> ret (Inl \<lparr>message =
                           ''Unable to find latest Lekko version for platform "'' @ platform @
                           ''" and architecture "'' @ architecture @ ''".''\<rparr>)))
           else
             (let tag = releaseTagForVersion version in
              bind (call (GetReleaseByTag githubToken (requestAgent env) ''lekkodev'' ''cli'' tag)
                         (release_by_tag env githubToken (requestAgent env) ''lekkodev'' ''cli'' tag))
                (\<lambda>rel. case scan_assets assetName (assets rel) of
                          Some u \<Rightarrow> ret (Inr u)
                        | None \<Rightarrow> ret (Inl \<lparr>message =
                            ''Unable to find Lekko version "'' @ version @ ''" for platform "'' @
                            platform @ ''" and architecture "'' @ architecture @ ''".''\<rparr>)))))\<close>

text \<open>\<^verbatim>\<open>getGithubToken\<close>: one POST to the token-exchange endpoint.\<close>

definition token_endpoint :: string where
  "token_endpoint =
     ''https://web.api.lekko.dev/lekko.backend.v1beta1.DistributionService/GetDeveloperAccessToken''"

definition getGithubToken :: "env \<Rightarrow> string \<Rightarrow> (error + string) prog" where
  "getGithubToken env apikey =
     (let hs = [(''apikey'', apikey), (''Content-Type'', ''application/json'')] in
      bind (call (Fetch token_endpoint ''POST'' hs ''{}'')
                 (fetch env token_endpoint ''POST'' hs ''{}''))
        (\<lambda>resp.
           if \<not> ok resp then
             ret (Inl \<lparr>message = ''Error getting developer access token: '' @ statusText resp\<rparr>)
           else
             bind (lift (json resp))
               (\<lambda>data. case token data of
                         None \<Rightarrow> ret (Inl \<lparr>message = ''No token found in response''\<rparr>)
                       | Some t \<Rightarrow>
                           if length t = 0 then ret (Inl \<lparr>message = ''No token found in response''\<rparr>)
                           else ret (Inr t))))"

text \<open>
  \<^verbatim>\<open>getLekko\<close> of \<^verbatim>\<open>src/lekko.ts\<close> (version, apikey, githubToken), in two parts.
  \<open>downloadAndCache\<close> is the second half of its body, from "Resolving the download
  URL" to the end, as a function of the token that the first half has settled
  (the source assigns it to \<^verbatim>\<open>githubToken\<close> and goes on).
\<close>

definition downloadAndCache :: "env \<Rightarrow> string \<Rightarrow> string \<Rightarrow> (error + string) prog" where
  \<open>downloadAndCache env version githubToken =
     bind (emit (Info ''Resolving the download URL for the current platform...''))
     (\<lambda>_. bind (getDownloadURL env version githubToken)
     (\<lambda>downloadURL. case downloadURL of
        Inl err \<Rightarrow> ret (Inl err)
      | Inr u \<Rightarrow>
          (let hs = [(''Accept'', ''application/octet-stream''),
                     (''Authorization'', ''Bearer '' @ githubToken),
                     (''X-GitHub-Api-Version'', ''2022-11-28'')] in
           bind (emit (Info (''Downloading lekko version "'' @ version @ ''" from '' @ u)))
           (\<lambda>_. bind (call (DownloadTool u None None hs)
                            (tc_downloadTool env u None None hs))
           (\<lambda>downloadPath. bind (emit (Info (''Successfully downloaded lekko version "'' @
                                    version @ ''" onto path '' @ downloadPath)))
           (\<lambda>_. bind (emit (Info ''Extracting lekko...''))
           (\<lambda>_. bind (call (ExtractTar downloadPath) (tc_extractTar env downloadPath))
           (\<lambda>extractPath. bind (emit (Info (''Successfully extracted lekko to '' @ extractPath)))
           (\<lambda>_. bind (emit (Info (''Adding "'' @ extractPath @ ''" to the cache...'')))
           (\<lambda>_. bind (call (CacheDir extractPath ''lekko'' version (os_arch env))
                            (tc_cacheDir env extractPath ''lekko'' version (os_arch env)))
           (\<lambda>cacheDir. bind (emit (Info (''Successfully cached lekko to '' @ cacheDir)))
           (\<lambda>_. ret (Inr cacheDir)))))))))))))\<close>

definition getLekko :: "env \<Rightarrow> string \<Rightarrow> string \<Rightarrow> string \<Rightarrow> (error + string) prog" where
  "getLekko env version apikey githubToken =
     bind (call (TcFind ''lekko'' version (os_arch env))
                (tc_find env ''lekko'' version (os_arch env)))
       (\<lambda>binaryPath.
          if binaryPath \<noteq> [] then
            bind (emit (Info (''Found in cache @ '' @ binaryPath)))
              (\<lambda>_. ret (Inr binaryPath))
          else
            bind (if length apikey > 0 then
                    bind (emit (Info ''Retrieving developer github token for your api key...''))
                      (\<lambda>_. getGithubToken env apikey)
                  else ret (Inr githubToken))
              (\<lambda>tok. case tok of
                 Inl err \<Rightarrow> ret (Inl err)
               | Inr githubToken' \<Rightarrow> downloadAndCache env version githubToken'))"

text \<open>The token-exchange request among the calls.\<close>

fun is_token_exchange :: "event \<Rightarrow> bool" where
  "is_token_exchange (Fetch u m hs b) = True"
| "is_token_exchange ev = False"

section \<open>The two-argument variant of lekko.ts\<close>

text \<open>
  The second copy of \<^verbatim>\<open>lekko.ts\<close> among the sources has no API key: \<^verbatim>\<open>getLekko\<close>
  takes (version, githubToken). Its functions carry the suffix 2 here.
  \<^verbatim>\<open>releaseTagForVersion\<close> is the same text in both copies.
\<close>

definition getDownloadURL2 :: "env \<Rightarrow> string \<Rightarrow> string \<Rightarrow> (error + string) prog" where
  \<open>getDownloadURL2 env version githubToken =
     (case resolvePlatform (os_arch env) (os_platform env) of
        Inl err \<Rightarrow> ret (Inl err)
      | Inr (architecture, platform) \<Rightarrow>
          (let assetName = assetName_of platform architecture in
           if version = ''latest'' then
             bind (call (ListReleases githubToken (requestAgent env) ''lekkodev'' ''cli'' 1)
                        (list_releases env githubToken (requestAgent env) ''lekkodev'' ''cli'' 1))
               (\<lambda>releases. bind (lift (first_assets releases))
                 (\<lambda>as. case scan_assets assetName as of
                         Some u \<Rightarrow> ret (Inr u)
                       | None \<Rightarrow> ret (Inl \<lparr>message =
                           ''Unable to find Lekko version "'' @ version @ ''" for platform "'' @
                           platform @ ''" and architecture "'' @ architecture @ ''".''\<rparr>)))
           else
             (let tag = releaseTagForVersion version in
              bind (call (GetReleaseByTag githubToken (requestAgent env) ''lekkodev'' ''cli'' tag)
                         (release_by_tag env githubToken (requestAgent env) ''lekkodev'' ''cli'' tag))
                (\<lambda>rel. case scan_assets assetName (assets rel) of
                          Some u \<Rightarrow> ret (Inr u)
                        | None \<Rightarrow> ret (Inl \<lparr>message =
                            ''Unable to find Lekko version "'' @ version @ ''" for platform "'' @
                            platform @ ''" and architecture "'' @ architecture @ ''".''\<rparr>)))))\<close>

text \<open>The line that announces the download, with what it says about the token.\<close>

definition download_notice :: "string \<Rightarrow> string \<Rightarrow> string \<Rightarrow> string" where
  \<open>download_notice version downloadURL githubToken =
     ''Downloading lekko version "'' @ version @ ''" from '' @ downloadURL @
     '' using token of length '' @ number_toString (length githubToken) @ '': '' @
     take 5 githubToken\<close>

definition getLekko2 :: "env \<Rightarrow> string \<Rightarrow> string \<Rightarrow> (error + string) prog" where
  \<open>getLekko2 env version githubToken =
     bind (call (TcFind ''lekko'' version (os_arch env))
                (tc_find env ''lekko'' version (os_arch env)))
       (\<lambda>binaryPath.
          if binaryPath \<noteq> [] then
            bind (emit (Info (''Found in cache @ '' @ binaryPath)))
              (\<lambda>_. ret (Inr binaryPath))
          else
            bind (emit (Info ''Resolving the download URL for the current platform...''))
            (\<lambda>_. bind (getDownloadURL2 env version githubToken)
            (\<lambda>downloadURL. case downloadURL of
               Inl err \<Rightarrow> ret (Inl err)
             | Inr u \<Rightarrow>
                 bind (emit (Info (download_notice version u githubToken)))
                 (\<lambda>_. bind (call (DownloadTool u None (Some githubToken) [])
                                  (tc_downloadTool env u None (Some githubToken) []))
                 (\<lambda>downloadPath. bind (emit (Info (''Successfully downloaded lekko version "'' @
                                          version @ ''" from '' @ u)))
                 (\<lambda>_. bind (emit (Info ''Extracting lekko...''))
                 (\<lambda>_. bind (call (ExtractTar downloadPath) (tc_extractTar env downloadPath))
                 (\<lambda>extractPath. bind (emit (Info (''Successfully extracted lekko to '' @ extractPath)))
                 (\<lambda>_. bind (emit (Info ''Adding lekko to the cache...''))
                 (\<lambda>_. bind (call (CacheDir (path_join env extractPath ''lekko'') ''lekko'' version (os_arch env))
                                  (tc_cacheDir env (path_join env extractPath ''lekko'') ''lekko'' version
                                     (os_arch env)))
                 (\<lambda>cacheDir. bind (emit (Info (''Successfully cached lekko to '' @ cacheDir)))
                 (\<lambda>_. ret (Inr cacheDir)))))))))))))\<close>

section \<open>run.ts\<close>

text \<open>
  \<^verbatim>\<open>runSetup\<close> returns null (\<open>None\<close>) or an error. Its call of \<^verbatim>\<open>getLekko\<close> has two
  arguments, the version and the github token: of the two copies of \<^verbatim>\<open>lekko.ts\<close>
  among the sources, it is the two-argument one that has this signature. The inputs
  it reads are \<^verbatim>\<open>version\<close> and \<^verbatim>\<open>github_token\<close>.
\<close>

definition setFailed :: "string \<Rightarrow> unit prog" where
  "setFailed msg = emit (SetFailed msg)"

definition runSetup :: "env \<Rightarrow> error option prog" where
  \<open>runSetup env =
     (let version = getInput env ''version'' in
      if version = [] then ret (Some \<lparr>message = ''a version was not provided''\<rparr>)
      else
        (let githubToken = getInput env ''github_token'' in
         if githubToken = [] then
           ret (Some \<lparr>message = ''No github_token supplied, won't be able to download lekko''\<rparr>)
         else
           bind (emit (Info (''Setting up Lekko version "'' @ version @ ''"'')))
           (\<lambda>_. bind (getLekko2 env version githubToken)
           (\<lambda>installDir. case installDir of
              Inl err \<Rightarrow> ret (Some err)
            | Inr d \<Rightarrow>
                bind (emit (Info (''Adding lekko binary to PATH. This is the install directory: '' @ d)))
                (\<lambda>_. bind (if os_platform env = ''win32'' then addPath d
                            else addPath (path_join env d ''bin''))
                (\<lambda>_. bind (which env ''lekko'' True)
                (\<lambda>binaryPath.
                   if binaryPath = [] then ret (Some \<lparr>message = ''lekko was not found on PATH''\<rparr>)
                   else
                     bind (emit (Info (''Successfully setup lekko version '' @ version)))
                     (\<lambda>_. bind (call (ExecSync (binaryPath @ '' --version''))
                                      (execSync env (binaryPath @ '' --version'')))
                     (\<lambda>out. bind (emit (Info out))
                     (\<lambda>_. ret None))))))))))\<close>

text \<open>
  \<^verbatim>\<open>run\<close>: the try/catch around \<^verbatim>\<open>runSetup\<close>. A result that is not null is an
  error object, so \<^verbatim>\<open>isError(result)\<close> holds for it.
\<close>

definition run :: "env \<Rightarrow> unit prog" where
  "run env =
     (\<lambda>w. case runSetup env w of
             (Returned result, w') \<Rightarrow>
               (case result of
                  None \<Rightarrow> (Returned (), w')
                | Some err \<Rightarrow> setFailed (message err) w')
           | (Threw e, w') \<Rightarrow>
               (if isError e then setFailed (thrown_message e) w'
                else setFailed ''Internal error'' w'))"

section \<open>Example hosts\<close>

text \<open>
  A release with two assets, and a runner with an empty tool cache whose registry
  serves that release; the theorems below are instantiated on it.
\<close>

definition example_release :: release where
  "example_release =
     \<lparr>assets =
        [\<lparr>name = ''lekko_Darwin_arm64.tar.gz'', url = ''https://api.github.com/assets/1''\<rparr>,
         \<lparr>name = ''lekko_Linux_x86_64.tar.gz'', url = ''https://api.github.com/assets/2''\<rparr>]\<rparr>"

definition example_inputs :: "string \<Rightarrow> string" where
  "example_inputs n =
     (if n = ''version'' then ''0.2.15''
      else if n = ''github_token'' then ''ghp_0123456789'' else [])"

definition example_host :: "string \<Rightarrow> string \<Rightarrow> env" where
  "example_host arch plat =
     \<lparr>os_arch = arch, os_platform = plat,
      getInput = example_inputs,
      http_proxy = None,
      path_join = (\<lambda>a b. a @ ''/'' @ b),
      tc_find = (\<lambda>tool version a. Inr []),
      fetch = (\<lambda>u m hs b. Inr \<lparr>ok = True, statusText = ''OK'',
                                  json = Inr \<lparr>token = Some ''ghs_exchanged''\<rparr>\<rparr>),
      list_releases = (\<lambda>auth agent owner repo n. Inr [example_release]),
      release_by_tag = (\<lambda>auth agent owner repo tag. Inr example_release),
      tc_downloadTool = (\<lambda>u dest auth hs. Inr ''/tmp/download''),
      tc_extractTar = (\<lambda>f. Inr ''/tmp/extract''),
      tc_cacheDir = (\<lambda>d tool version a. Inr ''/opt/hostedtoolcache/lekko''),
      io_which = (\<lambda>tool check dirs. case dirs of [] \<Rightarrow> Inr [] | d # ds \<Rightarrow> Inr (d @ ''/'' @ tool)),
      execSync = (\<lambda>cmd. Inr ''lekko version 0.2.15'')\<rparr>"

text \<open>The same runner with the tool already in its cache.\<close>

definition cached_host :: env where
  "cached_host =
     (example_host ''x64'' ''linux'')
       \<lparr>tc_find := \<lambda>tool version a. Inr ''/opt/hostedtoolcache/lekko/0.2.15/x64''\<rparr>"

text \<open>Token exchanges that fail: a refusal, and an answer with an empty token.\<close>

definition denied_host :: env where
  "denied_host =
     (example_host ''x64'' ''linux'')
       \<lparr>fetch := \<lambda>u m hs b. Inr \<lparr>ok = False, statusText = ''Unauthorized'',
                                     json = Inl (ErrorShaped ''Unexpected end of JSON input'')\<rparr>\<rparr>"

definition empty_token_host :: env where
  "empty_token_host =
     (example_host ''x64'' ''linux'')
       \<lparr>fetch := \<lambda>u m hs b. Inr \<lparr>ok = True, statusText = ''OK'',
                                     json = Inr \<lparr>token = Some []\<rparr>\<rparr>\<rparr>"

text \<open>
  More runners: a tool cache that throws, a Windows runner and a Linux runner with the
  tool cached, a runner on which \<^verbatim>\<open>lekko\<close> does not resolve, a workflow that gives an
  API key and no github token, and a registry with no release.
\<close>

definition broken_cache_host :: "thrown \<Rightarrow> env" where
  "broken_cache_host e = (example_host ''x64'' ''linux'')\<lparr>tc_find := \<lambda>tool version a. Inl e\<rparr>"



definition apikey_only_inputs :: "string \<Rightarrow> string" where
  "apikey_only_inputs n =
     (if n = ''version'' then ''0.2.15''
      else if n = ''apikey'' then ''lekko_key'' else [])"

definition apikey_only_host :: env where
  "apikey_only_host = (example_host ''x64'' ''linux'')\<lparr>getInput := apikey_only_inputs\<rparr>"

definition latest_inputs :: "string \<Rightarrow> string" where
  "latest_inputs n =
     (if n = ''version'' then ''latest''
      else if n = ''github_token'' then ''ghp_0123456789'' else [])"

definition no_releases_host :: env where
  "no_releases_host =
     (example_host ''x64'' ''linux'')
       \<lparr>getInput := latest_inputs, list_releases := \<lambda>auth agent owner repo n. Inr []\<rparr>"

definition world0 :: world where
  "world0 = \<lparr>search_path = [''/usr/bin''], events = []\<rparr>"

section \<open>Properties\<close>

subsection \<open>Running a program on a world\<close>

lemma ret_apply: "ret x w = (Returned x, w)"
  by (simp add: ret_def)

lemma bind_apply:
  "bind m f w = (case m w of (Returned x, w') \<Rightarrow> f x w' | (Threw e, w') \<Rightarrow> (Threw e, w'))"
  by (simp add: bind_def)

lemma emit_apply: "emit ev w = (Returned (), w\<lparr>events := events w @ [ev]\<rparr>)"
  by (simp add: emit_def)

lemma lift_apply: "lift r w = (case r of Inl e \<Rightarrow> Threw e | Inr v \<Rightarrow> Returned v, w)"
  by (simp add: lift_def)

lemma call_apply:
  "call ev r w =
     (case r of Inl e \<Rightarrow> Threw e | Inr v \<Rightarrow> Returned v, w\<lparr>events := events w @ [ev]\<rparr>)"
  by (simp add: call_def bind_apply emit_apply lift_apply)

lemmas prog_simps = ret_apply bind_apply emit_apply lift_apply call_apply

lemma sublist_eqI: "ys = ps @ xs @ ss \<Longrightarrow> sublist xs ys"
  by (auto simp: sublist_def)

subsection \<open>Release tags\<close>

lemma indexOf_zero_iff: "indexOf s pat = 0 \<longleftrightarrow> prefix pat s"
  by (cases s) (auto simp: Let_def)

text \<open>
  C5. The release tag of a version is the version itself when it starts with "v" and
  "v" followed by the version otherwise; computing the tag of a tag changes nothing.
\<close>

theorem releaseTagForVersion_prefix_idem:
  "(prefix ''v'' x \<longrightarrow> releaseTagForVersion x = x) \<and>
   (\<not> prefix ''v'' x \<longrightarrow> releaseTagForVersion x = ''v'' @ x) \<and>
   releaseTagForVersion (releaseTagForVersion x) = releaseTagForVersion x"
  by (simp add: releaseTagForVersion_def versionPrefix_def indexOf_zero_iff)

theorem releaseTagForVersion_prefix_idem_witness:
  "prefix ''v'' ''v0.38.0'' \<and> releaseTagForVersion ''v0.38.0'' = ''v0.38.0'' \<and>
   \<not> prefix ''v'' ''0.38.0'' \<and> releaseTagForVersion ''0.38.0'' = ''v0.38.0'' \<and>
   releaseTagForVersion (releaseTagForVersion ''0.38.0'') = releaseTagForVersion ''0.38.0''"
  using releaseTagForVersion_prefix_idem [of "''v0.38.0''"]
        releaseTagForVersion_prefix_idem [of "''0.38.0''"]
  by simp

subsection \<open>Platform resolution\<close>

lemma resolve_ok:
  "(arch = ''x64'' \<or> arch = ''arm64'') \<Longrightarrow> (plat = ''linux'' \<or> plat = ''darwin'') \<Longrightarrow>
   resolvePlatform arch plat =
     Inr (if arch = ''x64'' then ''x86_64'' else ''arm64'',
          if plat = ''linux'' then ''Linux'' else ''Darwin'')"
  by (auto simp: resolvePlatform_def resolveArchitecture_def resolveOS_def)

lemma resolve_bad_arch:
  "\<not> (arch = ''x64'' \<or> arch = ''arm64'') \<Longrightarrow>
   resolvePlatform arch plat =
     Inl \<lparr>message = ''The \"'' @ arch @ ''\" architecture is not supported with a Lekko release.''\<rparr>"
  by (simp add: resolvePlatform_def resolveArchitecture_def resolveOS_def)

lemma resolve_bad_plat:
  "(arch = ''x64'' \<or> arch = ''arm64'') \<Longrightarrow> \<not> (plat = ''linux'' \<or> plat = ''darwin'') \<Longrightarrow>
   resolvePlatform arch plat =
     Inl \<lparr>message = ''The \"'' @ plat @ ''\" platform is not supported with a Lekko release.''\<rparr>"
  by (auto simp: resolvePlatform_def resolveArchitecture_def resolveOS_def)

lemma getDownloadURL_unsupported:
  "isl (resolvePlatform (os_arch env) (os_platform env)) \<Longrightarrow>
   getDownloadURL env v t w =
     (Returned (Inl (projl (resolvePlatform (os_arch env) (os_platform env)))), w) \<and>
   getDownloadURL2 env v t w =
     (Returned (Inl (projl (resolvePlatform (os_arch env) (os_platform env)))), w)"
  by (cases "resolvePlatform (os_arch env) (os_platform env)")
     (simp_all add: getDownloadURL_def getDownloadURL2_def prog_simps)

text \<open>
  C1. Platform resolution succeeds exactly on the architectures "x64", "arm64" and the
  platforms "linux", "darwin", with the tokens x64 -> "x86_64", arm64 -> "arm64",
  linux -> "Linux", darwin -> "Darwin". Any other architecture gives an error whose
  message contains the raw architecture; a supported architecture with any other
  platform gives an error whose message contains the raw platform. In both variants
  \<^verbatim>\<open>getDownloadURL\<close> returns that error and calls nothing.
\<close>

theorem platform_resolution:
  "((arch = ''x64'' \<or> arch = ''arm64'') \<and> (plat = ''linux'' \<or> plat = ''darwin'') \<longrightarrow>
      resolvePlatform arch plat =
        Inr (if arch = ''x64'' then ''x86_64'' else ''arm64'',
             if plat = ''linux'' then ''Linux'' else ''Darwin'')) \<and>
   (\<not> (arch = ''x64'' \<or> arch = ''arm64'') \<longrightarrow>
      isl (resolvePlatform arch plat) \<and>
      sublist arch (message (projl (resolvePlatform arch plat)))) \<and>
   ((arch = ''x64'' \<or> arch = ''arm64'') \<and> \<not> (plat = ''linux'' \<or> plat = ''darwin'') \<longrightarrow>
      isl (resolvePlatform arch plat) \<and>
      sublist plat (message (projl (resolvePlatform arch plat)))) \<and>
   (isl (resolvePlatform (os_arch env) (os_platform env)) \<longrightarrow>
      getDownloadURL env version tok w =
        (Returned (Inl (projl (resolvePlatform (os_arch env) (os_platform env)))), w) \<and>
      getDownloadURL2 env version tok w =
        (Returned (Inl (projl (resolvePlatform (os_arch env) (os_platform env)))), w))"
proof (intro conjI impI)
  assume "(arch = ''x64'' \<or> arch = ''arm64'') \<and> (plat = ''linux'' \<or> plat = ''darwin'')"
  then show "resolvePlatform arch plat =
        Inr (if arch = ''x64'' then ''x86_64'' else ''arm64'',
             if plat = ''linux'' then ''Linux'' else ''Darwin'')"
    using resolve_ok by blast
next
  assume a: "\<not> (arch = ''x64'' \<or> arch = ''arm64'')"
  show "isl (resolvePlatform arch plat)"
    by (simp add: resolve_bad_arch [OF a])
  have "sublist arch (''The \"'' @ arch @ ''\" architecture is not supported with a Lekko release.'')"
    by (rule sublist_eqI [where ps = "''The \"''"]) simp
  then show "sublist arch (message (projl (resolvePlatform arch plat)))"
    by (simp add: resolve_bad_arch [OF a])
next
  assume a: "(arch = ''x64'' \<or> arch = ''arm64'') \<and> \<not> (plat = ''linux'' \<or> plat = ''darwin'')"
  then have r: "resolvePlatform arch plat =
      Inl \<lparr>message = ''The \"'' @ plat @ ''\" platform is not supported with a Lekko release.''\<rparr>"
    using resolve_bad_plat by blast
  show "isl (resolvePlatform arch plat)"
    by (simp add: r)
  have "sublist plat (''The \"'' @ plat @ ''\" platform is not supported with a Lekko release.'')"
    by (rule sublist_eqI [where ps = "''The \"''"]) simp
  then show "sublist plat (message (projl (resolvePlatform arch plat)))"
    by (simp add: r)
next
  assume "isl (resolvePlatform (os_arch env) (os_platform env))"
  then show "getDownloadURL env version tok w =
        (Returned (Inl (projl (resolvePlatform (os_arch env) (os_platform env)))), w)"
    using getDownloadURL_unsupported by blast
next
  assume "isl (resolvePlatform (os_arch env) (os_platform env))"
  then show "getDownloadURL2 env version tok w =
        (Returned (Inl (projl (resolvePlatform (os_arch env) (os_platform env)))), w)"
    using getDownloadURL_unsupported by blast
qed

theorem platform_resolution_witness:
  "resolvePlatform ''x64'' ''linux'' = Inr (''x86_64'', ''Linux'') \<and>
   resolvePlatform ''arm64'' ''darwin'' = Inr (''arm64'', ''Darwin'') \<and>
   sublist ''ia32'' (message (projl (resolvePlatform ''ia32'' ''win32''))) \<and>
   isl (resolvePlatform ''x64'' ''win32'') \<and>
   sublist ''win32'' (message (projl (resolvePlatform ''x64'' ''win32''))) \<and>
   getDownloadURL (example_host ''x64'' ''win32'') ''0.2.15'' ''ghp_0123456789'' world0 =
     (Returned (Inl \<lparr>message = ''The \"win32\" platform is not supported with a Lekko release.''\<rparr>),
      world0)"
  using platform_resolution [of "''x64''" "''linux''" "example_host ''x64'' ''win32''"
          "''0.2.15''" "''ghp_0123456789''" world0]
        platform_resolution [of "''arm64''" "''darwin''" "example_host ''x64'' ''win32''"
          "''0.2.15''" "''ghp_0123456789''" world0]
        platform_resolution [of "''ia32''" "''win32''" "example_host ''x64'' ''win32''"
          "''0.2.15''" "''ghp_0123456789''" world0]
        platform_resolution [of "''x64''" "''win32''" "example_host ''x64'' ''win32''"
          "''0.2.15''" "''ghp_0123456789''" world0]
  by (simp add: example_host_def resolvePlatform_def resolveArchitecture_def resolveOS_def)

subsection \<open>Locating the latest release\<close>

lemma scan_assets_find:
  "scan_assets n as = map_option url (find (\<lambda>a. name a = n) as)"
  by (induction as) auto

lemma latest_returned:
  assumes "resolvePlatform (os_arch env) (os_platform env) = Inr (architecture, platform)"
      and "list_releases env tok (requestAgent env) ''lekkodev'' ''cli'' 1 = Inr (r # rs)"
  shows "getDownloadURL env ''latest'' tok w =
           (Returned (case scan_assets (assetName_of platform architecture) (assets r) of
                        Some u \<Rightarrow> Inr u
                      | None \<Rightarrow> Inl \<lparr>message =
                          ''Unable to find latest Lekko version for platform \"'' @ platform @
                          ''\" and architecture \"'' @ architecture @ ''\".''\<rparr>),
            w\<lparr>events := events w @ [ListReleases tok (requestAgent env) ''lekkodev'' ''cli'' 1]\<rparr>)"
  using assms
  by (simp add: getDownloadURL_def prog_simps first_assets_def split: option.splits)

lemma latest_returned2:
  assumes "resolvePlatform (os_arch env) (os_platform env) = Inr (architecture, platform)"
      and "list_releases env tok (requestAgent env) ''lekkodev'' ''cli'' 1 = Inr (r # rs)"
  shows "getDownloadURL2 env ''latest'' tok w =
           (Returned (case scan_assets (assetName_of platform architecture) (assets r) of
                        Some u \<Rightarrow> Inr u
                      | None \<Rightarrow> Inl \<lparr>message =
                          ''Unable to find Lekko version \"latest\" for platform \"'' @ platform @
                          ''\" and architecture \"'' @ architecture @ ''\".''\<rparr>),
            w\<lparr>events := events w @ [ListReleases tok (requestAgent env) ''lekkodev'' ''cli'' 1]\<rparr>)"
  using assms
  by (simp add: getDownloadURL2_def prog_simps first_assets_def split: option.splits)

text \<open>
  C2. With version "latest" on a supported host, when the release list comes back with
  a first release: both variants make exactly one call, the release list with page size
  1; if the first asset of that release named exactly
  \<^verbatim>\<open>lekko_<platform>_<architecture>.tar.gz\<close> is \<open>a\<close>, the result is the URL of \<open>a\<close>;
  if no asset has that name, the result is an error whose message contains the
  platform token and the architecture token.
\<close>

theorem latest_asset_scan:
  assumes "resolvePlatform (os_arch env) (os_platform env) = Inr (architecture, platform)"
      and "list_releases env tok (requestAgent env) ''lekkodev'' ''cli'' 1 = Inr (r # rs)"
  shows "snd (getDownloadURL env ''latest'' tok w) =
           w\<lparr>events := events w @ [ListReleases tok (requestAgent env) ''lekkodev'' ''cli'' 1]\<rparr> \<and>
         snd (getDownloadURL2 env ''latest'' tok w) =
           w\<lparr>events := events w @ [ListReleases tok (requestAgent env) ''lekkodev'' ''cli'' 1]\<rparr> \<and>
         (find (\<lambda>a. name a = ''lekko_'' @ platform @ ''_'' @ architecture @ ''.tar.gz'') (assets r) = Some a \<longrightarrow>
            fst (getDownloadURL env ''latest'' tok w) = Returned (Inr (url a)) \<and>
            fst (getDownloadURL2 env ''latest'' tok w) = Returned (Inr (url a))) \<and>
         ((\<forall>a \<in> set (assets r). name a \<noteq> ''lekko_'' @ platform @ ''_'' @ architecture @ ''.tar.gz'') \<longrightarrow>
            (\<exists>m m2. fst (getDownloadURL env ''latest'' tok w) = Returned (Inl \<lparr>message = m\<rparr>) \<and>
                    fst (getDownloadURL2 env ''latest'' tok w) = Returned (Inl \<lparr>message = m2\<rparr>) \<and>
                    sublist platform m \<and> sublist architecture m \<and>
                    sublist platform m2 \<and> sublist architecture m2))"
proof -
  let ?N = "''lekko_'' @ platform @ ''_'' @ architecture @ ''.tar.gz''"
  have N: "assetName_of platform architecture = ?N"
    by (simp add: assetName_of_def)
  note L = latest_returned [OF assms, of w] latest_returned2 [OF assms, of w]
  have e: "snd (getDownloadURL env ''latest'' tok w) =
             w\<lparr>events := events w @ [ListReleases tok (requestAgent env) ''lekkodev'' ''cli'' 1]\<rparr>"
          "snd (getDownloadURL2 env ''latest'' tok w) =
             w\<lparr>events := events w @ [ListReleases tok (requestAgent env) ''lekkodev'' ''cli'' 1]\<rparr>"
    by (simp_all add: L)
  have hit: "fst (getDownloadURL env ''latest'' tok w) = Returned (Inr (url a)) \<and>
             fst (getDownloadURL2 env ''latest'' tok w) = Returned (Inr (url a))"
    if "find (\<lambda>a. name a = ?N) (assets r) = Some a"
  proof -
    from that have "scan_assets (assetName_of platform architecture) (assets r) = Some (url a)"
      by (simp add: N scan_assets_find)
    then show ?thesis by (simp add: L)
  qed
  have miss: "\<exists>m m2. fst (getDownloadURL env ''latest'' tok w) = Returned (Inl \<lparr>message = m\<rparr>) \<and>
                  fst (getDownloadURL2 env ''latest'' tok w) = Returned (Inl \<lparr>message = m2\<rparr>) \<and>
                  sublist platform m \<and> sublist architecture m \<and>
                  sublist platform m2 \<and> sublist architecture m2"
    if "\<forall>a \<in> set (assets r). name a \<noteq> ?N"
  proof -
    from that have n: "scan_assets (assetName_of platform architecture) (assets r) = None"
      by (simp add: N scan_assets_find find_None_iff)
    let ?m = "''Unable to find latest Lekko version for platform \"'' @ platform @
              ''\" and architecture \"'' @ architecture @ ''\".''"
    let ?m2 = "''Unable to find Lekko version \"latest\" for platform \"'' @ platform @
               ''\" and architecture \"'' @ architecture @ ''\".''"
    have 1: "fst (getDownloadURL env ''latest'' tok w) = Returned (Inl \<lparr>message = ?m\<rparr>)"
      by (simp add: L n)
    have 2: "fst (getDownloadURL2 env ''latest'' tok w) = Returned (Inl \<lparr>message = ?m2\<rparr>)"
      by (simp add: L n)
    have 3: "sublist platform ?m"
      by (rule sublist_eqI [where ps = "''Unable to find latest Lekko version for platform \"''"
            and ss = "''\" and architecture \"'' @ architecture @ ''\".''"]) simp
    have 4: "sublist platform ?m2"
      by (rule sublist_eqI [where ps = "''Unable to find Lekko version \"latest\" for platform \"''"
            and ss = "''\" and architecture \"'' @ architecture @ ''\".''"]) simp
    have 5: "sublist architecture ?m"
      by (rule sublist_eqI [where ps = "''Unable to find latest Lekko version for platform \"'' @
            platform @ ''\" and architecture \"''" and ss = "''\".''"]) simp
    have 6: "sublist architecture ?m2"
      by (rule sublist_eqI [where ps = "''Unable to find Lekko version \"latest\" for platform \"'' @
            platform @ ''\" and architecture \"''" and ss = "''\".''"]) simp
    from 1 2 3 4 5 6 show ?thesis by blast
  qed
  from e hit miss show ?thesis by blast
qed

theorem latest_asset_scan_witness:
  "resolvePlatform (os_arch (example_host ''x64'' ''linux'')) (os_platform (example_host ''x64'' ''linux'')) =
     Inr (''x86_64'', ''Linux'') \<and>
   getDownloadURL (example_host ''x64'' ''linux'') ''latest'' ''ghp_0123456789'' world0 =
     (Returned (Inr ''https://api.github.com/assets/2''),
      \<lparr>search_path = [''/usr/bin''],
       events = [ListReleases ''ghp_0123456789'' None ''lekkodev'' ''cli'' 1]\<rparr>) \<and>
   getDownloadURL2 (example_host ''x64'' ''linux'') ''latest'' ''ghp_0123456789'' world0 =
     (Returned (Inr ''https://api.github.com/assets/2''),
      \<lparr>search_path = [''/usr/bin''],
       events = [ListReleases ''ghp_0123456789'' None ''lekkodev'' ''cli'' 1]\<rparr>) \<and>
   (\<exists>m. fst (getDownloadURL (example_host ''x64'' ''darwin'') ''latest'' ''ghp_0123456789'' world0) =
          Returned (Inl \<lparr>message = m\<rparr>) \<and> sublist ''Darwin'' m \<and> sublist ''x86_64'' m)"
proof -
  let ?a = "\<lparr>name = ''lekko_Linux_x86_64.tar.gz'', url = ''https://api.github.com/assets/2''\<rparr>"
  let ?h = "example_host ''x64'' ''linux''"
  let ?d = "example_host ''x64'' ''darwin''"
  have r1: "resolvePlatform (os_arch ?h) (os_platform ?h) = Inr (''x86_64'', ''Linux'')"
    by (simp add: example_host_def resolvePlatform_def resolveArchitecture_def resolveOS_def)
  have l1: "list_releases ?h ''ghp_0123456789'' (requestAgent ?h) ''lekkodev'' ''cli'' 1 =
              Inr (example_release # [])"
    by (simp add: example_host_def)
  have r2: "resolvePlatform (os_arch ?d) (os_platform ?d) = Inr (''x86_64'', ''Darwin'')"
    by (simp add: example_host_def resolvePlatform_def resolveArchitecture_def resolveOS_def)
  have l2: "list_releases ?d ''ghp_0123456789'' (requestAgent ?d) ''lekkodev'' ''cli'' 1 =
              Inr (example_release # [])"
    by (simp add: example_host_def)
  have ag: "requestAgent ?h = None"
    by (simp add: example_host_def requestAgent_def)
  have f1: "find (\<lambda>a. name a = ''lekko_'' @ ''Linux'' @ ''_'' @ ''x86_64'' @ ''.tar.gz'')
              (assets example_release) = Some ?a"
    by (simp add: example_release_def)
  have f2: "\<forall>a \<in> set (assets example_release).
              name a \<noteq> ''lekko_'' @ ''Darwin'' @ ''_'' @ ''x86_64'' @ ''.tar.gz''"
    by (simp add: example_release_def)
  note T = latest_asset_scan [OF r1 l1, where a = ?a and w = world0]
  from T f1 have
    "fst (getDownloadURL ?h ''latest'' ''ghp_0123456789'' world0) = Returned (Inr (url ?a))"
    "fst (getDownloadURL2 ?h ''latest'' ''ghp_0123456789'' world0) = Returned (Inr (url ?a))"
    "snd (getDownloadURL ?h ''latest'' ''ghp_0123456789'' world0) =
       world0\<lparr>events := events world0 @ [ListReleases ''ghp_0123456789'' (requestAgent ?h) ''lekkodev'' ''cli'' 1]\<rparr>"
    "snd (getDownloadURL2 ?h ''latest'' ''ghp_0123456789'' world0) =
       world0\<lparr>events := events world0 @ [ListReleases ''ghp_0123456789'' (requestAgent ?h) ''lekkodev'' ''cli'' 1]\<rparr>"
    by blast+
  then have A: "getDownloadURL ?h ''latest'' ''ghp_0123456789'' world0 =
     (Returned (Inr ''https://api.github.com/assets/2''),
      \<lparr>search_path = [''/usr/bin''],
       events = [ListReleases ''ghp_0123456789'' None ''lekkodev'' ''cli'' 1]\<rparr>)"
   and B: "getDownloadURL2 ?h ''latest'' ''ghp_0123456789'' world0 =
     (Returned (Inr ''https://api.github.com/assets/2''),
      \<lparr>search_path = [''/usr/bin''],
       events = [ListReleases ''ghp_0123456789'' None ''lekkodev'' ''cli'' 1]\<rparr>)"
    by (simp_all add: prod_eq_iff ag world0_def)
  from latest_asset_scan [OF r2 l2, where w = world0] f2
  have C: "\<exists>m. fst (getDownloadURL ?d ''latest'' ''ghp_0123456789'' world0) =
          Returned (Inl \<lparr>message = m\<rparr>) \<and> sublist ''Darwin'' m \<and> sublist ''x86_64'' m"
    by blast
  from r1 A B C show ?thesis by blast
qed

subsection \<open>Cache hit\<close>

text \<open>
  C3. When the tool cache returns a non-empty path for ("lekko", version, host
  architecture), \<^verbatim>\<open>getLekko\<close> returns that path; the only things it does are the
  lookup itself and one log line: no token exchange, no registry query, no download,
  no extraction, no cache write, and the search path is untouched. The same holds for
  the two-argument variant.
\<close>

theorem cache_hit_no_effects:
  assumes "tc_find env ''lekko'' version (os_arch env) = Inr p" and "p \<noteq> []"
  shows "getLekko env version apikey tok w =
           (Returned (Inr p),
            w\<lparr>events := events w @ [TcFind ''lekko'' version (os_arch env),
                                      Info (''Found in cache @ '' @ p)]\<rparr>) \<and>
         getLekko2 env version tok w =
           (Returned (Inr p),
            w\<lparr>events := events w @ [TcFind ''lekko'' version (os_arch env),
                                      Info (''Found in cache @ '' @ p)]\<rparr>)"
  using assms by (simp add: getLekko_def getLekko2_def prog_simps)

theorem cache_hit_no_effects_witness:
  "tc_find cached_host ''lekko'' ''0.2.15'' (os_arch cached_host) =
     Inr ''/opt/hostedtoolcache/lekko/0.2.15/x64'' \<and>
   getLekko cached_host ''0.2.15'' ''apikey'' ''ghp_0123456789'' world0 =
     (Returned (Inr ''/opt/hostedtoolcache/lekko/0.2.15/x64''),
      \<lparr>search_path = [''/usr/bin''],
       events = [TcFind ''lekko'' ''0.2.15'' ''x64'',
                 Info ''Found in cache @ /opt/hostedtoolcache/lekko/0.2.15/x64'']\<rparr>) \<and>
   getLekko2 cached_host ''0.2.15'' ''ghp_0123456789'' world0 =
     (Returned (Inr ''/opt/hostedtoolcache/lekko/0.2.15/x64''),
      \<lparr>search_path = [''/usr/bin''],
       events = [TcFind ''lekko'' ''0.2.15'' ''x64'',
                 Info ''Found in cache @ /opt/hostedtoolcache/lekko/0.2.15/x64'']\<rparr>)"
proof -
  have h: "tc_find cached_host ''lekko'' ''0.2.15'' (os_arch cached_host) =
             Inr ''/opt/hostedtoolcache/lekko/0.2.15/x64''"
    by (simp add: cached_host_def)
  have n: "''/opt/hostedtoolcache/lekko/0.2.15/x64'' \<noteq> []"
    by simp
  have a: "os_arch cached_host = ''x64''"
    by (simp add: cached_host_def example_host_def)
  show ?thesis
    using cache_hit_no_effects [OF h n, of "''apikey''" "''ghp_0123456789''" world0] h
    by (simp add: a world0_def)
qed

subsection \<open>Credential resolution\<close>

lemma getDownloadURL_no_exchange:
  "filter is_token_exchange (events (snd (getDownloadURL env v t w))) =
   filter is_token_exchange (events w)"
  by (simp add: getDownloadURL_def prog_simps Let_def
           split: sum.splits prod.splits option.splits outcome.splits)

lemma downloadAndCache_no_exchange:
  "filter is_token_exchange (events (snd (downloadAndCache env v t w))) =
   filter is_token_exchange (events w)"
proof -
  obtain r w1 where g: "getDownloadURL env v t
      (w\<lparr>events := events w @ [Info ''Resolving the download URL for the current platform...'']\<rparr>) = (r, w1)"
    by (cases "getDownloadURL env v t
      (w\<lparr>events := events w @ [Info ''Resolving the download URL for the current platform...'']\<rparr>)")
  have e: "filter is_token_exchange (events w1) = filter is_token_exchange (events w)"
    using getDownloadURL_no_exchange [of env v t
      "w\<lparr>events := events w @ [Info ''Resolving the download URL for the current platform...'']\<rparr>"]
    by (simp add: g)
  show ?thesis
    using e
    by (simp add: downloadAndCache_def prog_simps g Let_def
             split: sum.splits outcome.splits)
qed

lemma getLekko_no_apikey:
  assumes "tc_find env ''lekko'' version (os_arch env) = Inr []"
  shows "getLekko env version [] tok w =
           downloadAndCache env version tok
             (w\<lparr>events := events w @ [TcFind ''lekko'' version (os_arch env)]\<rparr>)"
  using assms by (simp add: getLekko_def prog_simps)

lemma getLekko_exchange:
  assumes "tc_find env ''lekko'' version (os_arch env) = Inr []" and "apikey \<noteq> []"
  shows "getLekko env version apikey tok w =
     (case getGithubToken env apikey
             (w\<lparr>events := events w @ [TcFind ''lekko'' version (os_arch env),
                 Info ''Retrieving developer github token for your api key...'']\<rparr>) of
        (Returned (Inl err), w') \<Rightarrow> (Returned (Inl err), w')
      | (Returned (Inr t), w') \<Rightarrow> downloadAndCache env version t w'
      | (Threw e, w') \<Rightarrow> (Threw e, w'))"
  using assms by (simp add: getLekko_def prog_simps split: prod.splits outcome.splits sum.splits)

lemma getGithubToken_cases:
  "getGithubToken env apikey w =
     (let hs = [(''apikey'', apikey), (''Content-Type'', ''application/json'')];
          w' = w\<lparr>events := events w @ [Fetch token_endpoint ''POST'' hs ''{}'']\<rparr> in
      case fetch env token_endpoint ''POST'' hs ''{}'' of
        Inl e \<Rightarrow> (Threw e, w')
      | Inr resp \<Rightarrow>
          if \<not> ok resp then
            (Returned (Inl \<lparr>message = ''Error getting developer access token: '' @ statusText resp\<rparr>), w')
          else (case json resp of
                  Inl e \<Rightarrow> (Threw e, w')
                | Inr data \<Rightarrow>
                    (case token data of
                       None \<Rightarrow> (Returned (Inl \<lparr>message = ''No token found in response''\<rparr>), w')
                     | Some t \<Rightarrow> if t = [] then (Returned (Inl \<lparr>message = ''No token found in response''\<rparr>), w')
                                 else (Returned (Inr t), w'))))"
  by (simp add: getGithubToken_def prog_simps Let_def split: sum.splits option.splits)


lemma getDownloadURL_result:
  "fst (getDownloadURL env v t w) = fst (getDownloadURL env v t w')"
  by (simp add: getDownloadURL_def prog_simps Let_def
           split: sum.splits prod.splits option.splits)

lemma getDownloadURL_query:
  assumes "resolvePlatform (os_arch env) (os_platform env) = Inr (architecture, platform)"
  shows "events (snd (getDownloadURL env version tok w)) =
           events w @ [(if version = ''latest'' then ListReleases tok (requestAgent env) ''lekkodev'' ''cli'' 1
                else GetReleaseByTag tok (requestAgent env) ''lekkodev'' ''cli''
                       (releaseTagForVersion version))]"
  using assms
  by (simp add: getDownloadURL_def prog_simps Let_def
           split: sum.splits option.splits)

lemma downloadAndCache_query:
  assumes "resolvePlatform (os_arch env) (os_platform env) = Inr (architecture, platform)"
  shows "prefix (events w @ [Info ''Resolving the download URL for the current platform...'',
                            (if version = ''latest'' then ListReleases tok (requestAgent env) ''lekkodev'' ''cli'' 1
                else GetReleaseByTag tok (requestAgent env) ''lekkodev'' ''cli''
                       (releaseTagForVersion version))])
                (events (snd (downloadAndCache env version tok w)))"
proof -
  let ?W = "w\<lparr>events := events w @ [Info ''Resolving the download URL for the current platform...'']\<rparr>"
  obtain r w1 where g: "getDownloadURL env version tok ?W = (r, w1)"
    by (cases "getDownloadURL env version tok ?W")
  have e: "events w1 = events w @ [Info ''Resolving the download URL for the current platform...'',
                                   (if version = ''latest'' then ListReleases tok (requestAgent env) ''lekkodev'' ''cli'' 1
                else GetReleaseByTag tok (requestAgent env) ''lekkodev'' ''cli''
                       (releaseTagForVersion version))]"
    using getDownloadURL_query [OF assms, of version tok ?W] by (simp add: g)
  show ?thesis
    using g e
    by (simp add: downloadAndCache_def prog_simps Let_def split: sum.splits outcome.splits)
qed

lemma downloadAndCache_download:
  assumes "fst (getDownloadURL env version tok w0) = Returned (Inr u)"
  shows "DownloadTool u None None
           [(''Accept'', ''application/octet-stream''),
            (''Authorization'', ''Bearer '' @ tok),
            (''X-GitHub-Api-Version'', ''2022-11-28'')]
         \<in> set (events (snd (downloadAndCache env version tok w)))"
proof -
  let ?W = "w\<lparr>events := events w @ [Info ''Resolving the download URL for the current platform...'']\<rparr>"
  obtain r w1 where g: "getDownloadURL env version tok ?W = (r, w1)"
    by (cases "getDownloadURL env version tok ?W")
  have "r = fst (getDownloadURL env version tok w0)"
    using getDownloadURL_result [of env version tok ?W w0] by (simp only: g fst_conv)
  with assms have r: "r = Returned (Inr u)"
    by simp
  show ?thesis
    using g r
    by (simp add: downloadAndCache_def prog_simps Let_def split: sum.splits)
qed

text \<open>
  C4. On a cache miss, \<^verbatim>\<open>getLekko\<close> settles the credential first. With an empty
  apikey it makes no token-exchange request and goes on with the github token it was
  given, unchanged: on a supported host the registry query that follows is
  authenticated with that token, and when a URL is found the download carries
  "Bearer " followed by that token. With a non-empty apikey it makes exactly one
  token-exchange request, a POST that carries the apikey in the header of that name.
  If the answer is not ok, the result is the error "Error getting developer access
  token: " followed by the status text; if the answer is ok and its token is missing
  or empty, the result is the error "No token found in response". In both cases
  nothing follows the request: no registry query and no download. If the answer
  carries a token, the registry query is authenticated with the token of the answer.
\<close>

theorem credential_resolution:
  assumes "tc_find env ''lekko'' version (os_arch env) = Inr []"
  shows
   "(apikey = [] \<longrightarrow>
       getLekko env version apikey tok w =
         downloadAndCache env version tok
           (w\<lparr>events := events w @ [TcFind ''lekko'' version (os_arch env)]\<rparr>) \<and>
       filter is_token_exchange (events (snd (getLekko env version apikey tok w))) =
         filter is_token_exchange (events w)) \<and>
    (apikey = [] \<and>
     resolvePlatform (os_arch env) (os_platform env) = Inr (architecture, platform) \<longrightarrow>
       prefix (events w @
                 [TcFind ''lekko'' version (os_arch env),
                  Info ''Resolving the download URL for the current platform...'',
                  if version = ''latest''
                  then ListReleases tok (requestAgent env) ''lekkodev'' ''cli'' 1
                  else GetReleaseByTag tok (requestAgent env) ''lekkodev'' ''cli''
                         (releaseTagForVersion version)])
              (events (snd (getLekko env version apikey tok w)))) \<and>
    (apikey = [] \<and> fst (getDownloadURL env version tok w) = Returned (Inr u) \<longrightarrow>
       DownloadTool u None None
         [(''Accept'', ''application/octet-stream''),
          (''Authorization'', ''Bearer '' @ tok),
          (''X-GitHub-Api-Version'', ''2022-11-28'')]
       \<in> set (events (snd (getLekko env version apikey tok w)))) \<and>
    (apikey \<noteq> [] \<longrightarrow>
       filter is_token_exchange (events (snd (getLekko env version apikey tok w))) =
         filter is_token_exchange (events w) @
           [Fetch token_endpoint ''POST''
              [(''apikey'', apikey), (''Content-Type'', ''application/json'')] ''{}'']) \<and>
    (apikey \<noteq> [] \<and>
     fetch env token_endpoint ''POST''
       [(''apikey'', apikey), (''Content-Type'', ''application/json'')] ''{}'' = Inr resp \<and>
     \<not> ok resp \<longrightarrow>
       getLekko env version apikey tok w =
         (Returned (Inl \<lparr>message = ''Error getting developer access token: '' @ statusText resp\<rparr>),
          w\<lparr>events := events w @
             [TcFind ''lekko'' version (os_arch env),
              Info ''Retrieving developer github token for your api key...'',
              Fetch token_endpoint ''POST''
                [(''apikey'', apikey), (''Content-Type'', ''application/json'')] ''{}'']\<rparr>)) \<and>
    (apikey \<noteq> [] \<and>
     fetch env token_endpoint ''POST''
       [(''apikey'', apikey), (''Content-Type'', ''application/json'')] ''{}'' = Inr resp \<and>
     ok resp \<and> json resp = Inr data \<and> (token data = None \<or> token data = Some []) \<longrightarrow>
       getLekko env version apikey tok w =
         (Returned (Inl \<lparr>message = ''No token found in response''\<rparr>),
          w\<lparr>events := events w @
             [TcFind ''lekko'' version (os_arch env),
              Info ''Retrieving developer github token for your api key...'',
              Fetch token_endpoint ''POST''
                [(''apikey'', apikey), (''Content-Type'', ''application/json'')] ''{}'']\<rparr>)) \<and>
    (apikey \<noteq> [] \<and>
     fetch env token_endpoint ''POST''
       [(''apikey'', apikey), (''Content-Type'', ''application/json'')] ''{}'' = Inr resp \<and>
     ok resp \<and> json resp = Inr data \<and> token data = Some t' \<and> t' \<noteq> [] \<and>
     resolvePlatform (os_arch env) (os_platform env) = Inr (architecture, platform) \<longrightarrow>
       prefix (events w @
                 [TcFind ''lekko'' version (os_arch env),
                  Info ''Retrieving developer github token for your api key...'',
                  Fetch token_endpoint ''POST''
                    [(''apikey'', apikey), (''Content-Type'', ''application/json'')] ''{}'',
                  Info ''Resolving the download URL for the current platform...'',
                  if version = ''latest''
                  then ListReleases t' (requestAgent env) ''lekkodev'' ''cli'' 1
                  else GetReleaseByTag t' (requestAgent env) ''lekkodev'' ''cli''
                         (releaseTagForVersion version)])
              (events (snd (getLekko env version apikey tok w))))"
proof -
  let ?find = "TcFind ''lekko'' version (os_arch env)"
  let ?hs = "[(''apikey'', apikey), (''Content-Type'', ''application/json'')]"
  let ?w1 = "w\<lparr>events := events w @ [?find]\<rparr>"
  let ?w3 = "w\<lparr>events := events w @
               [?find, Info ''Retrieving developer github token for your api key...'',
                Fetch token_endpoint ''POST'' ?hs ''{}'']\<rparr>"
  have a1: "getLekko env version apikey tok w = downloadAndCache env version tok ?w1"
    if "apikey = []"
    using that by (simp add: getLekko_no_apikey [OF assms])
  have a2: "filter is_token_exchange (events (snd (getLekko env version apikey tok w))) =
            filter is_token_exchange (events w)"
    if "apikey = []"
    using that by (simp add: getLekko_no_apikey [OF assms] downloadAndCache_no_exchange)
  have a3: "prefix (events w @
                 [?find,
                  Info ''Resolving the download URL for the current platform...'',
                  if version = ''latest''
                  then ListReleases tok (requestAgent env) ''lekkodev'' ''cli'' 1
                  else GetReleaseByTag tok (requestAgent env) ''lekkodev'' ''cli''
                         (releaseTagForVersion version)])
              (events (snd (getLekko env version apikey tok w)))"
    if "apikey = [] \<and>
        resolvePlatform (os_arch env) (os_platform env) = Inr (architecture, platform)"
  proof -
    from that have k: "apikey = []"
      and r: "resolvePlatform (os_arch env) (os_platform env) = Inr (architecture, platform)"
      by blast+
    show ?thesis
      using downloadAndCache_query [OF r, of ?w1 version tok]
      by (simp add: a1 [OF k])
  qed
  have a4: "DownloadTool u None None
         [(''Accept'', ''application/octet-stream''),
          (''Authorization'', ''Bearer '' @ tok),
          (''X-GitHub-Api-Version'', ''2022-11-28'')]
       \<in> set (events (snd (getLekko env version apikey tok w)))"
    if "apikey = [] \<and> fst (getDownloadURL env version tok w) = Returned (Inr u)"
  proof -
    from that have k: "apikey = []"
      and g: "fst (getDownloadURL env version tok w) = Returned (Inr u)"
      by blast+
    show ?thesis
      using downloadAndCache_download [OF g, of ?w1]
      by (simp only: a1 [OF k])
  qed
  have b1: "filter is_token_exchange (events (snd (getLekko env version apikey tok w))) =
         filter is_token_exchange (events w) @ [Fetch token_endpoint ''POST'' ?hs ''{}'']"
    if k: "apikey \<noteq> []"
    by (simp add: getLekko_exchange [OF assms k] getGithubToken_cases Let_def
          downloadAndCache_no_exchange split: sum.splits option.splits)
  have b2: "getLekko env version apikey tok w =
         (Returned (Inl \<lparr>message = ''Error getting developer access token: '' @ statusText resp\<rparr>),
          ?w3)"
    if "apikey \<noteq> [] \<and> fetch env token_endpoint ''POST'' ?hs ''{}'' = Inr resp \<and> \<not> ok resp"
    using that by (simp add: getLekko_exchange [OF assms] getGithubToken_cases Let_def)
  have b3: "getLekko env version apikey tok w =
         (Returned (Inl \<lparr>message = ''No token found in response''\<rparr>), ?w3)"
    if "apikey \<noteq> [] \<and> fetch env token_endpoint ''POST'' ?hs ''{}'' = Inr resp \<and>
        ok resp \<and> json resp = Inr data \<and> (token data = None \<or> token data = Some [])"
    using that by (auto simp add: getLekko_exchange [OF assms] getGithubToken_cases Let_def)
  have b4: "prefix (events w @
                 [?find,
                  Info ''Retrieving developer github token for your api key...'',
                  Fetch token_endpoint ''POST'' ?hs ''{}'',
                  Info ''Resolving the download URL for the current platform...'',
                  if version = ''latest''
                  then ListReleases t' (requestAgent env) ''lekkodev'' ''cli'' 1
                  else GetReleaseByTag t' (requestAgent env) ''lekkodev'' ''cli''
                         (releaseTagForVersion version)])
              (events (snd (getLekko env version apikey tok w)))"
    if "apikey \<noteq> [] \<and> fetch env token_endpoint ''POST'' ?hs ''{}'' = Inr resp \<and>
        ok resp \<and> json resp = Inr data \<and> token data = Some t' \<and> t' \<noteq> [] \<and>
        resolvePlatform (os_arch env) (os_platform env) = Inr (architecture, platform)"
  proof -
    from that have k: "apikey \<noteq> []"
      and f: "fetch env token_endpoint ''POST'' ?hs ''{}'' = Inr resp" "ok resp"
        "json resp = Inr data" "token data = Some t'" "t' \<noteq> []"
      and r: "resolvePlatform (os_arch env) (os_platform env) = Inr (architecture, platform)"
      by blast+
    have "getLekko env version apikey tok w = downloadAndCache env version t' ?w3"
      using f by (simp add: getLekko_exchange [OF assms k] getGithubToken_cases Let_def)
    then show ?thesis
      using downloadAndCache_query [OF r, of ?w3 version t']
      by simp
  qed
  from a1 a2 a3 a4 b1 b2 b3 b4 show ?thesis
    by blast
qed

theorem credential_resolution_witness:
  "tc_find denied_host ''lekko'' ''0.2.15'' (os_arch denied_host) = Inr [] \<and>
   getLekko denied_host ''0.2.15'' ''lekko_key'' ''ghp_0123456789'' world0 =
     (Returned (Inl \<lparr>message = ''Error getting developer access token: Unauthorized''\<rparr>),
      \<lparr>search_path = [''/usr/bin''],
       events = [TcFind ''lekko'' ''0.2.15'' ''x64'',
                 Info ''Retrieving developer github token for your api key...'',
                 Fetch token_endpoint ''POST''
                   [(''apikey'', ''lekko_key''), (''Content-Type'', ''application/json'')] ''{}'']\<rparr>) \<and>
   getLekko empty_token_host ''0.2.15'' ''lekko_key'' ''ghp_0123456789'' world0 =
     (Returned (Inl \<lparr>message = ''No token found in response''\<rparr>),
      \<lparr>search_path = [''/usr/bin''],
       events = [TcFind ''lekko'' ''0.2.15'' ''x64'',
                 Info ''Retrieving developer github token for your api key...'',
                 Fetch token_endpoint ''POST''
                   [(''apikey'', ''lekko_key''), (''Content-Type'', ''application/json'')] ''{}'']\<rparr>) \<and>
   getLekko (example_host ''x64'' ''linux'') ''0.2.15'' [] ''ghp_0123456789'' world0 =
     downloadAndCache (example_host ''x64'' ''linux'') ''0.2.15'' ''ghp_0123456789''
       \<lparr>search_path = [''/usr/bin''], events = [TcFind ''lekko'' ''0.2.15'' ''x64'']\<rparr> \<and>
   prefix [TcFind ''lekko'' ''0.2.15'' ''x64'',
           Info ''Resolving the download URL for the current platform...'',
           GetReleaseByTag ''ghp_0123456789'' None ''lekkodev'' ''cli'' ''v0.2.15'']
     (events (snd (getLekko (example_host ''x64'' ''linux'') ''0.2.15'' [] ''ghp_0123456789'' world0))) \<and>
   DownloadTool ''https://api.github.com/assets/2'' None None
     [(''Accept'', ''application/octet-stream''),
      (''Authorization'', ''Bearer ghp_0123456789''),
      (''X-GitHub-Api-Version'', ''2022-11-28'')]
     \<in> set (events (snd (getLekko (example_host ''x64'' ''linux'') ''0.2.15'' [] ''ghp_0123456789'' world0))) \<and>
   prefix [TcFind ''lekko'' ''0.2.15'' ''x64'',
           Info ''Retrieving developer github token for your api key...'',
           Fetch token_endpoint ''POST''
             [(''apikey'', ''lekko_key''), (''Content-Type'', ''application/json'')] ''{}'',
           Info ''Resolving the download URL for the current platform...'',
           GetReleaseByTag ''ghs_exchanged'' None ''lekkodev'' ''cli'' ''v0.2.15'']
     (events (snd (getLekko (example_host ''x64'' ''linux'') ''0.2.15'' ''lekko_key''
                     ''ghp_0123456789'' world0)))"
proof -
  let ?h = "example_host ''x64'' ''linux''"
  let ?hs = "[(''apikey'', ''lekko_key''), (''Content-Type'', ''application/json'')]"
  let ?no = "\<lparr>ok = False, statusText = ''Unauthorized'',
              json = Inl (ErrorShaped ''Unexpected end of JSON input'')\<rparr>"
  let ?empty = "\<lparr>ok = True, statusText = ''OK'', json = Inr \<lparr>token = Some []\<rparr>\<rparr>"
  let ?good = "\<lparr>ok = True, statusText = ''OK'', json = Inr \<lparr>token = Some ''ghs_exchanged''\<rparr>\<rparr>"
  have m1: "tc_find denied_host ''lekko'' ''0.2.15'' (os_arch denied_host) = Inr []"
    by (simp add: denied_host_def example_host_def)
  have m2: "tc_find empty_token_host ''lekko'' ''0.2.15'' (os_arch empty_token_host) = Inr []"
    by (simp add: empty_token_host_def example_host_def)
  have m3: "tc_find ?h ''lekko'' ''0.2.15'' (os_arch ?h) = Inr []"
    by (simp add: example_host_def)
  have a: "os_arch denied_host = ''x64''" "os_arch empty_token_host = ''x64''"
    "os_arch ?h = ''x64''"
    by (simp_all add: denied_host_def empty_token_host_def example_host_def)
  have f1: "fetch denied_host token_endpoint ''POST'' ?hs ''{}'' = Inr ?no"
    by (simp add: denied_host_def)
  have f2: "fetch empty_token_host token_endpoint ''POST'' ?hs ''{}'' = Inr ?empty"
    by (simp add: empty_token_host_def)
  have f3: "fetch ?h token_endpoint ''POST'' ?hs ''{}'' = Inr ?good"
    by (simp add: example_host_def)
  have k: "''lekko_key'' \<noteq> []"
    by simp
  have r: "resolvePlatform (os_arch ?h) (os_platform ?h) = Inr (''x86_64'', ''Linux'')"
    by (simp add: example_host_def resolvePlatform_def resolveArchitecture_def resolveOS_def)
  have ag: "requestAgent ?h = None"
    by (simp add: example_host_def requestAgent_def)
  have tag: "releaseTagForVersion ''0.2.15'' = ''v0.2.15''"
    by (simp add: releaseTagForVersion_def versionPrefix_def)
  have g: "fst (getDownloadURL ?h ''0.2.15'' ''ghp_0123456789'' world0) =
             Returned (Inr ''https://api.github.com/assets/2'')"
    by (simp add: getDownloadURL_def resolvePlatform_def resolveArchitecture_def resolveOS_def
          assetName_of_def prog_simps tag example_host_def example_release_def)
  note T1 = credential_resolution [OF m1, where apikey = "''lekko_key''" and resp = ?no
              and tok = "''ghp_0123456789''" and w = world0]
  note T2 = credential_resolution [OF m2, where apikey = "''lekko_key''" and resp = ?empty
              and data = "\<lparr>token = Some []\<rparr>" and tok = "''ghp_0123456789''" and w = world0]
  note T3 = credential_resolution [OF m3, where apikey = "[]" and tok = "''ghp_0123456789''"
              and w = world0 and architecture = "''x86_64''" and platform = "''Linux''"
              and u = "''https://api.github.com/assets/2''"]
  note T4 = credential_resolution [OF m3, where apikey = "''lekko_key''" and resp = ?good
              and data = "\<lparr>token = Some ''ghs_exchanged''\<rparr>" and t' = "''ghs_exchanged''"
              and tok = "''ghp_0123456789''" and w = world0
              and architecture = "''x86_64''" and platform = "''Linux''"]
  have A: "getLekko denied_host ''0.2.15'' ''lekko_key'' ''ghp_0123456789'' world0 =
     (Returned (Inl \<lparr>message = ''Error getting developer access token: Unauthorized''\<rparr>),
      \<lparr>search_path = [''/usr/bin''],
       events = [TcFind ''lekko'' ''0.2.15'' ''x64'',
                 Info ''Retrieving developer github token for your api key...'',
                 Fetch token_endpoint ''POST'' ?hs ''{}'']\<rparr>)"
    using T1 [THEN conjunct2, THEN conjunct2, THEN conjunct2, THEN conjunct2, THEN conjunct1] f1 k
    by (simp add: a world0_def)
  have B: "getLekko empty_token_host ''0.2.15'' ''lekko_key'' ''ghp_0123456789'' world0 =
     (Returned (Inl \<lparr>message = ''No token found in response''\<rparr>),
      \<lparr>search_path = [''/usr/bin''],
       events = [TcFind ''lekko'' ''0.2.15'' ''x64'',
                 Info ''Retrieving developer github token for your api key...'',
                 Fetch token_endpoint ''POST'' ?hs ''{}'']\<rparr>)"
    using T2 [THEN conjunct2, THEN conjunct2, THEN conjunct2, THEN conjunct2, THEN conjunct2,
              THEN conjunct1] f2 k
    by (simp add: a world0_def)
  have C: "getLekko ?h ''0.2.15'' [] ''ghp_0123456789'' world0 =
     downloadAndCache ?h ''0.2.15'' ''ghp_0123456789''
       \<lparr>search_path = [''/usr/bin''], events = [TcFind ''lekko'' ''0.2.15'' ''x64'']\<rparr>"
    using T3 [THEN conjunct1]
    by (simp add: a world0_def)
  have D: "prefix [TcFind ''lekko'' ''0.2.15'' ''x64'',
           Info ''Resolving the download URL for the current platform...'',
           GetReleaseByTag ''ghp_0123456789'' None ''lekkodev'' ''cli'' ''v0.2.15'']
     (events (snd (getLekko ?h ''0.2.15'' [] ''ghp_0123456789'' world0)))"
    using T3 [THEN conjunct2, THEN conjunct1] r
    by (simp add: a ag tag world0_def)
  have E: "DownloadTool ''https://api.github.com/assets/2'' None None
     [(''Accept'', ''application/octet-stream''),
      (''Authorization'', ''Bearer ghp_0123456789''),
      (''X-GitHub-Api-Version'', ''2022-11-28'')]
     \<in> set (events (snd (getLekko ?h ''0.2.15'' [] ''ghp_0123456789'' world0)))"
    using T3 [THEN conjunct2, THEN conjunct2, THEN conjunct1] g
    by simp
  have F: "prefix [TcFind ''lekko'' ''0.2.15'' ''x64'',
           Info ''Retrieving developer github token for your api key...'',
           Fetch token_endpoint ''POST'' ?hs ''{}'',
           Info ''Resolving the download URL for the current platform...'',
           GetReleaseByTag ''ghs_exchanged'' None ''lekkodev'' ''cli'' ''v0.2.15'']
     (events (snd (getLekko ?h ''0.2.15'' ''lekko_key'' ''ghp_0123456789'' world0)))"
    using T4 [THEN conjunct2, THEN conjunct2, THEN conjunct2, THEN conjunct2, THEN conjunct2,
              THEN conjunct2] f3 k r
    by (simp add: a ag tag world0_def)
  from m1 A B C D E F show ?thesis
    by blast
qed

subsection \<open>The top-level handler\<close>

lemma setFailed_apply: "setFailed msg w = (Returned (), w\<lparr>events := events w @ [SetFailed msg]\<rparr>)"
  by (simp add: setFailed_def emit_apply)

lemma run_cases:
  "run env w =
     (case runSetup env w of
        (Returned None, w') \<Rightarrow> (Returned (), w')
      | (Returned (Some err), w') \<Rightarrow> (Returned (), w'\<lparr>events := events w' @ [SetFailed (message err)]\<rparr>)
      | (Threw (ErrorShaped m), w') \<Rightarrow> (Returned (), w'\<lparr>events := events w' @ [SetFailed m]\<rparr>)
      | (Threw NotErrorShaped, w') \<Rightarrow>
          (Returned (), w'\<lparr>events := events w' @ [SetFailed ''Internal error'']\<rparr>))"
  by (simp add: run_def setFailed_apply isError_def thrown_message_def
           split: prod.splits outcome.splits option.splits thrown.splits)

text \<open>
  C7. \<^verbatim>\<open>run\<close> never throws. Whatever \<^verbatim>\<open>runSetup\<close> throws is caught and the run is
  marked failed: with the message of the thrown value when it has the shape of an
  error, with "Internal error" otherwise.
\<close>

theorem run_catches_everything:
  "fst (run env w) = Returned () \<and>
   (runSetup env w = (Threw e, w') \<longrightarrow>
      run env w =
        (Returned (),
         w'\<lparr>events := events w' @
            [SetFailed (case e of ErrorShaped m \<Rightarrow> m | NotErrorShaped \<Rightarrow> ''Internal error'')]\<rparr>))"
  by (simp add: run_cases split: prod.splits outcome.splits option.splits thrown.splits)

theorem run_catches_everything_witness:
  "runSetup (broken_cache_host (ErrorShaped ''EACCES: permission denied'')) world0 =
     (Threw (ErrorShaped ''EACCES: permission denied''),
      \<lparr>search_path = [''/usr/bin''],
       events = [Info ''Setting up Lekko version \"0.2.15\"'', TcFind ''lekko'' ''0.2.15'' ''x64'']\<rparr>) \<and>
   run (broken_cache_host (ErrorShaped ''EACCES: permission denied'')) world0 =
     (Returned (),
      \<lparr>search_path = [''/usr/bin''],
       events = [Info ''Setting up Lekko version \"0.2.15\"'', TcFind ''lekko'' ''0.2.15'' ''x64'',
                 SetFailed ''EACCES: permission denied'']\<rparr>) \<and>
   run (broken_cache_host NotErrorShaped) world0 =
     (Returned (),
      \<lparr>search_path = [''/usr/bin''],
       events = [Info ''Setting up Lekko version \"0.2.15\"'', TcFind ''lekko'' ''0.2.15'' ''x64'',
                 SetFailed ''Internal error'']\<rparr>)"
proof -
  let ?w = "\<lparr>search_path = [''/usr/bin''],
       events = [Info ''Setting up Lekko version \"0.2.15\"'', TcFind ''lekko'' ''0.2.15'' ''x64'']\<rparr>"
  have r: "runSetup (broken_cache_host e) world0 = (Threw e, ?w)" for e
    by (simp add: runSetup_def getLekko2_def prog_simps Let_def broken_cache_host_def
          example_host_def example_inputs_def world0_def)
  show ?thesis
    using run_catches_everything [of "broken_cache_host (ErrorShaped ''EACCES: permission denied'')"
            world0 "ErrorShaped ''EACCES: permission denied''" ?w]
          run_catches_everything [of "broken_cache_host NotErrorShaped" world0 NotErrorShaped ?w]
    by (simp add: r)
qed

subsection \<open>Installing on the search path\<close>

lemma runSetup_start:
  assumes "getInput env ''version'' = version" "version \<noteq> []"
      and "getInput env ''github_token'' = tok" "tok \<noteq> []"
  shows "runSetup env w =
     (case getLekko2 env version tok
             (w\<lparr>events := events w @ [Info (''Setting up Lekko version \"'' @ version @ ''\"'')]\<rparr>) of
        (Threw e, w1) \<Rightarrow> (Threw e, w1)
      | (Returned (Inl err), w1) \<Rightarrow> (Returned (Some err), w1)
      | (Returned (Inr d), w1) \<Rightarrow>
          (let dir = (if os_platform env = ''win32'' then d else path_join env d ''bin'');
               w2 = w1\<lparr>search_path := dir # search_path w1,
                        events := events w1 @
                          [Info (''Adding lekko binary to PATH. This is the install directory: '' @ d),
                           AddPath dir, Which ''lekko'' True]\<rparr>
           in case io_which env ''lekko'' True (dir # search_path w1) of
                Inl e \<Rightarrow> (Threw e, w2)
              | Inr binaryPath \<Rightarrow>
                  if binaryPath = [] then
                    (Returned (Some \<lparr>message = ''lekko was not found on PATH''\<rparr>), w2)
                  else
                    (case execSync env (binaryPath @ '' --version'') of
                       Inl e \<Rightarrow>
                         (Threw e, w2\<lparr>events := events w2 @
                            [Info (''Successfully setup lekko version '' @ version),
                             ExecSync (binaryPath @ '' --version'')]\<rparr>)
                     | Inr out \<Rightarrow>
                         (Returned None, w2\<lparr>events := events w2 @
                            [Info (''Successfully setup lekko version '' @ version),
                             ExecSync (binaryPath @ '' --version''), Info out]\<rparr>))))"
proof -
  obtain r w1 where g: "getLekko2 env version tok
             (w\<lparr>events := events w @ [Info (''Setting up Lekko version \"'' @ version @ ''\"'')]\<rparr>) = (r, w1)"
    by (cases "getLekko2 env version tok
             (w\<lparr>events := events w @ [Info (''Setting up Lekko version \"'' @ version @ ''\"'')]\<rparr>)")
  show ?thesis
    using assms g
    by (simp add: runSetup_def prog_simps Let_def addPath_def which_def
           split: outcome.splits sum.splits)
qed





subsection \<open>The github token input\<close>

text \<open>
  C6. A run that supplies an API key and no github token must not fail for want of a
  credential before the fetch begins: the README gives \<^verbatim>\<open>apikey\<close> as the credential
  and marks \<^verbatim>\<open>github_token\<close> deprecated, and \<^verbatim>\<open>getLekko\<close> of \<^verbatim>\<open>lekko.ts\<close> exchanges
  the key for a token. \<^verbatim>\<open>runSetup\<close> does not do this. On such a run it stops at
  its check of \<^verbatim>\<open>github_token\<close> with the error "No github_token supplied, won't be
  able to download lekko": no call is made, and \<^verbatim>\<open>run\<close> marks the run failed.
\<close>

theorem apikey_only_run_fails:
  "getInput apikey_only_host ''apikey'' \<noteq> [] \<and>
   getInput apikey_only_host ''github_token'' = [] \<and>
   runSetup apikey_only_host world0 =
     (Returned (Some \<lparr>message = ''No github_token supplied, won't be able to download lekko''\<rparr>),
      world0) \<and>
   run apikey_only_host world0 =
     (Returned (),
      \<lparr>search_path = [''/usr/bin''],
       events = [SetFailed ''No github_token supplied, won't be able to download lekko'']\<rparr>)"
  by (simp add: run_def runSetup_def prog_simps setFailed_def Let_def apikey_only_host_def
        apikey_only_inputs_def world0_def)

subsection \<open>An empty release list\<close>

lemma latest_empty:
  assumes "resolvePlatform (os_arch env) (os_platform env) = Inr (architecture, platform)"
      and "list_releases env tok (requestAgent env) ''lekkodev'' ''cli'' 1 = Inr []"
  shows "getDownloadURL env ''latest'' tok w =
           (Threw undefined_assets,
            w\<lparr>events := events w @ [ListReleases tok (requestAgent env) ''lekkodev'' ''cli'' 1]\<rparr>)"
    and "getDownloadURL2 env ''latest'' tok w =
           (Threw undefined_assets,
            w\<lparr>events := events w @ [ListReleases tok (requestAgent env) ''lekkodev'' ''cli'' 1]\<rparr>)"
  using assms
  by (simp_all add: getDownloadURL_def getDownloadURL2_def prog_simps first_assets_def)

text \<open>
  C9. With version "latest" on a supported host, when the registry answers with an
  empty release list, \<^verbatim>\<open>getDownloadURL\<close> returns no error value: reading the assets of
  the missing first release throws, in both variants. On a cache miss the exception
  passes through \<^verbatim>\<open>getLekko\<close> and \<^verbatim>\<open>runSetup\<close>, and only \<^verbatim>\<open>run\<close> reports it, as a
  failure with the message of the exception.
\<close>

theorem latest_empty_release_list_throws:
  assumes "resolvePlatform (os_arch env) (os_platform env) = Inr (architecture, platform)"
      and "list_releases env tok (requestAgent env) ''lekkodev'' ''cli'' 1 = Inr []"
  shows "getDownloadURL env ''latest'' tok w =
           (Threw undefined_assets,
            w\<lparr>events := events w @ [ListReleases tok (requestAgent env) ''lekkodev'' ''cli'' 1]\<rparr>) \<and>
         getDownloadURL2 env ''latest'' tok w =
           (Threw undefined_assets,
            w\<lparr>events := events w @ [ListReleases tok (requestAgent env) ''lekkodev'' ''cli'' 1]\<rparr>) \<and>
         (getInput env ''version'' = ''latest'' \<and> getInput env ''github_token'' = tok \<and> tok \<noteq> [] \<and>
          tc_find env ''lekko'' ''latest'' (os_arch env) = Inr [] \<longrightarrow>
            runSetup env w =
              (Threw undefined_assets,
               w\<lparr>events := events w @
                  [Info ''Setting up Lekko version \"latest\"'',
                   TcFind ''lekko'' ''latest'' (os_arch env),
                   Info ''Resolving the download URL for the current platform...'',
                   ListReleases tok (requestAgent env) ''lekkodev'' ''cli'' 1]\<rparr>) \<and>
            run env w =
              (Returned (),
               w\<lparr>events := events w @
                  [Info ''Setting up Lekko version \"latest\"'',
                   TcFind ''lekko'' ''latest'' (os_arch env),
                   Info ''Resolving the download URL for the current platform...'',
                   ListReleases tok (requestAgent env) ''lekkodev'' ''cli'' 1,
                   SetFailed ''Cannot read properties of undefined (reading 'assets')'']\<rparr>))"
proof (intro conjI impI)
  show "getDownloadURL env ''latest'' tok w =
           (Threw undefined_assets,
            w\<lparr>events := events w @ [ListReleases tok (requestAgent env) ''lekkodev'' ''cli'' 1]\<rparr>)"
    by (rule latest_empty [OF assms])
  show "getDownloadURL2 env ''latest'' tok w =
           (Threw undefined_assets,
            w\<lparr>events := events w @ [ListReleases tok (requestAgent env) ''lekkodev'' ''cli'' 1]\<rparr>)"
    by (rule latest_empty [OF assms])
next
  assume h: "getInput env ''version'' = ''latest'' \<and> getInput env ''github_token'' = tok \<and> tok \<noteq> [] \<and>
          tc_find env ''lekko'' ''latest'' (os_arch env) = Inr []"
  have g: "getLekko2 env ''latest'' tok w0 =
        (Threw undefined_assets,
         w0\<lparr>events := events w0 @
            [TcFind ''lekko'' ''latest'' (os_arch env),
             Info ''Resolving the download URL for the current platform...'',
             ListReleases tok (requestAgent env) ''lekkodev'' ''cli'' 1]\<rparr>)" for w0
    using h by (simp add: getLekko2_def prog_simps latest_empty [OF assms])
  have n: "''latest'' \<noteq> []" by simp
  from h have h1: "getInput env ''version'' = ''latest''" and h2: "getInput env ''github_token'' = tok"
    and h3: "tok \<noteq> []" by blast+
  show r: "runSetup env w =
              (Threw undefined_assets,
               w\<lparr>events := events w @
                  [Info ''Setting up Lekko version \"latest\"'',
                   TcFind ''lekko'' ''latest'' (os_arch env),
                   Info ''Resolving the download URL for the current platform...'',
                   ListReleases tok (requestAgent env) ''lekkodev'' ''cli'' 1]\<rparr>)"
    by (simp add: runSetup_start [OF h1 n h2 h3] g)
  show "run env w =
              (Returned (),
               w\<lparr>events := events w @
                  [Info ''Setting up Lekko version \"latest\"'',
                   TcFind ''lekko'' ''latest'' (os_arch env),
                   Info ''Resolving the download URL for the current platform...'',
                   ListReleases tok (requestAgent env) ''lekkodev'' ''cli'' 1,
                   SetFailed ''Cannot read properties of undefined (reading 'assets')'']\<rparr>)"
    by (simp add: run_cases r undefined_assets_def)
qed

theorem latest_empty_release_list_throws_witness:
  "resolvePlatform (os_arch no_releases_host) (os_platform no_releases_host) = Inr (''x86_64'', ''Linux'') \<and>
   list_releases no_releases_host ''ghp_0123456789'' None ''lekkodev'' ''cli'' 1 = Inr [] \<and>
   getDownloadURL no_releases_host ''latest'' ''ghp_0123456789'' world0 =
     (Threw undefined_assets,
      \<lparr>search_path = [''/usr/bin''],
       events = [ListReleases ''ghp_0123456789'' None ''lekkodev'' ''cli'' 1]\<rparr>) \<and>
   run no_releases_host world0 =
     (Returned (),
      \<lparr>search_path = [''/usr/bin''],
       events = [Info ''Setting up Lekko version \"latest\"'',
                 TcFind ''lekko'' ''latest'' ''x64'',
                 Info ''Resolving the download URL for the current platform...'',
                 ListReleases ''ghp_0123456789'' None ''lekkodev'' ''cli'' 1,
                 SetFailed ''Cannot read properties of undefined (reading 'assets')'']\<rparr>)"
proof -
  let ?h = no_releases_host
  have r: "resolvePlatform (os_arch ?h) (os_platform ?h) = Inr (''x86_64'', ''Linux'')"
    by (simp add: no_releases_host_def example_host_def resolvePlatform_def resolveArchitecture_def resolveOS_def)
  have ag: "requestAgent ?h = None"
    by (simp add: no_releases_host_def example_host_def requestAgent_def)
  have l: "list_releases ?h ''ghp_0123456789'' (requestAgent ?h) ''lekkodev'' ''cli'' 1 = Inr []"
    by (simp add: no_releases_host_def)
  have i: "getInput ?h ''version'' = ''latest''" "getInput ?h ''github_token'' = ''ghp_0123456789''"
    by (simp_all add: no_releases_host_def latest_inputs_def)
  have m: "tc_find ?h ''lekko'' ''latest'' (os_arch ?h) = Inr []"
    by (simp add: no_releases_host_def example_host_def)
  have a: "os_arch ?h = ''x64''"
    by (simp add: no_releases_host_def example_host_def)
  have n: "''ghp_0123456789'' \<noteq> []" by simp
  show ?thesis
    using latest_empty_release_list_throws [OF r l, of world0] i m n r l
    by (simp add: ag a world0_def)
qed

subsection \<open>Decimal digits and the download notice\<close>

lemma below_ten: "d < 10 \<Longrightarrow> d = 0 \<or> d = 1 \<or> d = 2 \<or> d = 3 \<or> d = 4 \<or> d = 5 \<or> d = 6 \<or> d = 7 \<or> d = 8 \<or> d = (9::nat)"
  by arith

lemma digit_char_code: "d < 10 \<Longrightarrow> of_char (digit_char d) = 48 + d"
  by (drule below_ten) (auto simp: digit_char_def)

lemma digit_char_is_digit: "d < 10 \<Longrightarrow> is_digit (digit_char d)"
  by (drule below_ten) (auto simp: digit_char_def is_digit_def)

lemma is_digit_plain:
  "is_digit c \<Longrightarrow> c \<noteq> CHR '' '' \<and> c \<noteq> CHR '':'' \<and> c \<noteq> CHR ''u''"
  by (auto simp: is_digit_def)

lemma number_toString_digits: "\<forall>c\<in>set (number_toString n). is_digit c"
proof (induction n rule: number_toString.induct)
  case (1 n)
  show ?case
  proof (cases "n < 10")
    case True
    then show ?thesis
      by (subst number_toString.simps) (simp add: digit_char_is_digit)
  next
    case False
    have "n mod 10 < 10" by simp
    then have "is_digit (digit_char (n mod 10))"
      by (rule digit_char_is_digit)
    with False 1 show ?thesis
      by (subst number_toString.simps) simp
  qed
qed

lemma number_toString_nonempty: "number_toString n \<noteq> []"
  by (subst number_toString.simps) simp

lemma number_toString_value:
  "foldl (\<lambda>a c. 10 * a + (of_char c - 48)) 0 (number_toString n) = n"
proof (induction n rule: number_toString.induct)
  case (1 n)
  show ?case
  proof (cases "n < 10")
    case True
    then show ?thesis
      by (subst number_toString.simps) (simp add: digit_char_code)
  next
    case False
    have "n mod 10 < 10" by simp
    then have "of_char (digit_char (n mod 10)) = 48 + n mod 10"
      by (rule digit_char_code)
    with False 1 show ?thesis
      by (subst number_toString.simps) simp
  qed
qed

lemma number_toString_inj: "number_toString n = number_toString m \<Longrightarrow> n = m"
  by (metis number_toString_value)

lemma below_23:
  "k < 23 \<Longrightarrow> 0 < k \<Longrightarrow>
   k = 1 \<or> k = 2 \<or> k = 3 \<or> k = 4 \<or> k = 5 \<or> k = 6 \<or> k = 7 \<or> k = 8 \<or> k = 9 \<or> k = 10 \<or>
   k = 11 \<or> k = 12 \<or> k = 13 \<or> k = 14 \<or> k = 15 \<or> k = 16 \<or> k = 17 \<or> k = 18 \<or> k = 19 \<or>
   k = 20 \<or> k = 21 \<or> k = (22::nat)"
  by arith

lemma sep_overlap:
  assumes "0 < k" and "k < 23"
      and "('' using token of length '' @ T) ! k = CHR '' ''"
      and "('' using token of length '' @ T) ! Suc k = CHR ''u''"
  shows "T ! 0 = CHR ''u''"
  using below_23 [OF assms(2,1)] assms(3,4)
  by (elim disjE) simp_all

lemma sep_shift:
  assumes eq: "'' using token of length '' @ d @ '': '' @ p = w @ '' using token of length '' @ T"
      and d: "\<forall>c\<in>set d. is_digit c" "d \<noteq> []" and p: "length p \<le> 5"
  shows "w = []"
proof (rule ccontr)
  assume w: "w \<noteq> []"
  define S where "S = '' using token of length ''"
  define k where "k = length w"
  have lS: "length S = 23" by (simp add: S_def)
  have eq': "S @ d @ '': '' @ p = w @ S @ T"
    using eq by (simp add: S_def)
  have k0: "0 < k" using w by (simp add: k_def)
  have s0: "(S @ T) ! 0 = CHR '' ''" and s1: "(S @ T) ! 1 = CHR ''u''"
    by (simp_all add: S_def)
  have "(w @ S @ T) ! k = (S @ T) ! 0"
    by (simp add: k_def nth_append)
  then have a: "(S @ d @ '': '' @ p) ! k = CHR '' ''"
    by (simp only: eq' [symmetric] s0)
  have "(w @ S @ T) ! Suc k = (S @ T) ! 1"
    by (simp add: k_def nth_append)
  then have b: "(S @ d @ '': '' @ p) ! Suc k = CHR ''u''"
    by (simp only: eq' [symmetric] s1)
  have d0: "is_digit (d ! 0)"
    using d by (cases d) simp_all
  show False
  proof (cases "k < 23")
    case True
    have "(d @ '': '' @ p) ! 0 = CHR ''u''"
      using a b unfolding S_def by (rule sep_overlap [OF k0 True])
    then have "d ! 0 = CHR ''u''"
      using d(2) by (cases d) simp_all
    with d0 show False by (simp add: is_digit_def)
  next
    case False
    have "length (S @ d @ '': '' @ p) = length (w @ S @ T)"
      by (simp only: eq')
    then have "length d + 2 + length p = k + length T"
      by (simp add: k_def)
    with p False have j: "k - 23 < length d"
      by arith
    from False have "(S @ d @ '': '' @ p) ! k = (d @ '': '' @ p) ! (k - 23)"
      by (simp add: nth_append lS)
    also have "\<dots> = d ! (k - 23)"
      using j by (simp add: nth_append)
    finally have "d ! (k - 23) = CHR '' ''"
      by (simp only: a)
    moreover have "is_digit (d ! (k - 23))"
      using d(1) j by simp
    ultimately show False by (simp add: is_digit_def)
  qed
qed

lemma notice_tail_unique:
  assumes eq: "u1 @ '' using token of length '' @ d1 @ '': '' @ p1 =
               u2 @ '' using token of length '' @ d2 @ '': '' @ p2"
      and d1: "\<forall>c\<in>set d1. is_digit c" "d1 \<noteq> []" and p1: "length p1 \<le> 5"
      and d2: "\<forall>c\<in>set d2. is_digit c" "d2 \<noteq> []" and p2: "length p2 \<le> 5"
  shows "d1 = d2 \<and> p1 = p2"
proof -
  define S where "S = '' using token of length ''"
  define T1 where "T1 = d1 @ '': '' @ p1"
  define T2 where "T2 = d2 @ '': '' @ p2"
  have sh: "w = []"
    if "S @ d @ '': '' @ p = w @ S @ T" "\<forall>c\<in>set d. is_digit c" "d \<noteq> []" "length p \<le> 5"
    for d p w T
    using that unfolding S_def by (rule sep_shift)
  have eq': "u1 @ (S @ T1) = u2 @ (S @ T2)"
    using eq unfolding S_def T1_def T2_def .
  from append_eq_append_conv2 [THEN iffD1, OF eq'] obtain w where
    w: "u1 = u2 @ w \<and> w @ S @ T1 = S @ T2 \<or> u1 @ w = u2 \<and> S @ T1 = w @ S @ T2"
    by blast
  from w have e: "w = []"
  proof (elim disjE conjE)
    assume "w @ S @ T1 = S @ T2"
    then have "S @ d2 @ '': '' @ p2 = w @ S @ T1"
      unfolding T2_def by (rule sym)
    then show "w = []"
      using d2 p2 by (rule sh)
  next
    assume "S @ T1 = w @ S @ T2"
    then have "S @ d1 @ '': '' @ p1 = w @ S @ T2"
      unfolding T1_def .
    then show "w = []"
      using d1 p1 by (rule sh)
  qed
  from w have "S @ T1 = S @ T2"
    unfolding e by (elim disjE conjE) simp_all
  then have t: "d1 @ '': '' @ p1 = d2 @ '': '' @ p2"
    unfolding T1_def T2_def by (simp only: same_append_eq)
  have c1: "\<forall>c\<in>set d1. c \<noteq> CHR '':''" and c2: "\<forall>c\<in>set d2. c \<noteq> CHR '':''"
    using d1(1) d2(1) by (auto dest: is_digit_plain)
  have "takeWhile (\<lambda>c. c \<noteq> CHR '':'') (d1 @ '': '' @ p1) = d1"
    using c1 by (simp add: takeWhile_append2)
  moreover have "takeWhile (\<lambda>c. c \<noteq> CHR '':'') (d2 @ '': '' @ p2) = d2"
    using c2 by (simp add: takeWhile_append2)
  ultimately have "d1 = d2"
    by (simp only: t)
  with t show ?thesis by simp
qed


lemma download_notice_inj:
  assumes "download_notice v u1 t1 = download_notice v u2 t2"
  shows "length t1 = length t2 \<and> take 5 t1 = take 5 t2"
proof -
  have "u1 @ '' using token of length '' @ number_toString (length t1) @ '': '' @ take 5 t1 =
        u2 @ '' using token of length '' @ number_toString (length t2) @ '': '' @ take 5 t2"
    using assms by (simp add: download_notice_def)
  then have "number_toString (length t1) = number_toString (length t2) \<and> take 5 t1 = take 5 t2"
    by (rule notice_tail_unique)
       (simp_all add: number_toString_digits number_toString_nonempty)
  then show ?thesis
    by (auto dest: number_toString_inj)
qed

lemma log_output_append: "log_output (xs @ ys) = log_output xs @ log_output ys"
  by (induction xs rule: log_output.induct) simp_all

lemma getDownloadURL2_log:
  "log_output (events (snd (getDownloadURL2 env v t w))) = log_output (events w)"
  by (simp add: getDownloadURL2_def prog_simps Let_def log_output_append
           split: sum.splits prod.splits option.splits)

lemma getDownloadURL2_result:
  "fst (getDownloadURL2 env v t w) = fst (getDownloadURL2 env v t w')"
  by (simp add: getDownloadURL2_def prog_simps Let_def
           split: sum.splits prod.splits option.splits)

lemma getLekko2_resolved:
  assumes "tc_find env ''lekko'' version (os_arch env) = Inr []"
      and "getDownloadURL2 env version tok
             (w\<lparr>events := events w @
                [TcFind ''lekko'' version (os_arch env),
                 Info ''Resolving the download URL for the current platform...'']\<rparr>) =
           (Returned (Inr u), w2)"
  shows "\<exists>evs. events (snd (getLekko2 env version tok w)) =
                 events w2 @ Info (download_notice version u tok) # evs"
  using assms
  by (simp add: getLekko2_def prog_simps split: sum.splits)

lemma getLekko2_log:
  assumes "tc_find env ''lekko'' version (os_arch env) = Inr []"
      and "fst (getDownloadURL2 env version tok w) = Returned (Inr u)"
  shows "\<exists>ls. log_output (events (snd (getLekko2 env version tok w))) =
               (log_output (events w) @ [''Resolving the download URL for the current platform...'']) @
               download_notice version u tok # ls"
proof -
  let ?W = "w\<lparr>events := events w @
                [TcFind ''lekko'' version (os_arch env),
                 Info ''Resolving the download URL for the current platform...'']\<rparr>"
  obtain r w2 where g: "getDownloadURL2 env version tok ?W = (r, w2)"
    by (cases "getDownloadURL2 env version tok ?W")
  have "r = fst (getDownloadURL2 env version tok w)"
    using getDownloadURL2_result [of env version tok ?W w] by (simp only: g fst_conv)
  with assms(2) have r: "r = Returned (Inr u)"
    by simp
  have "log_output (events w2) = log_output (events ?W)"
    using getDownloadURL2_log [of env version tok ?W] by (simp only: g snd_conv)
  then have l: "log_output (events w2) =
      log_output (events w) @ [''Resolving the download URL for the current platform...'']"
    by (simp add: log_output_append)
  from getLekko2_resolved [OF assms(1) g [unfolded r]] obtain evs where
    "events (snd (getLekko2 env version tok w)) =
       events w2 @ Info (download_notice version u tok) # evs"
    by blast
  then have "log_output (events (snd (getLekko2 env version tok w))) =
      log_output (events w2) @ download_notice version u tok # log_output evs"
    by (simp add: log_output_append)
  then show ?thesis
    unfolding l by blast
qed

subsection \<open>The token in the log\<close>

text \<open>
  A cache miss on a Windows runner: the platform is not supported, no download is
  announced, and the log is the same for two tokens of different length and
  different first characters.
\<close>

theorem token_absent_from_log_without_url:
  "tc_find (example_host ''x64'' ''win32'') ''lekko'' ''0.2.15''
     (os_arch (example_host ''x64'' ''win32'')) = Inr [] \<and>
   length ''ghp_0123456789'' \<noteq> length ''tok'' \<and>
   take 5 ''ghp_0123456789'' \<noteq> take 5 ''tok'' \<and>
   log_output (events (snd (getLekko2 (example_host ''x64'' ''win32'') ''0.2.15'' ''ghp_0123456789'' world0))) =
     [''Resolving the download URL for the current platform...''] \<and>
   log_output (events (snd (getLekko2 (example_host ''x64'' ''win32'') ''0.2.15'' ''tok'' world0))) =
     [''Resolving the download URL for the current platform...'']"
  by (simp add: getLekko2_def getDownloadURL2_def resolvePlatform_def resolveArchitecture_def resolveOS_def prog_simps
        example_host_def world0_def)

text \<open>
  C10, as the code has it. In the two-argument variant, on every cache miss on which
  the download URL is resolved, the log contains the line that announces the
  download, and that line contains the decimal length of the github token and its
  first five characters. So two such runs, from the same state, whose tokens differ
  in length or in their first five characters have different logs.
\<close>

theorem token_in_download_log:
  assumes "tc_find env ''lekko'' version (os_arch env) = Inr []"
      and "fst (getDownloadURL2 env version t1 w) = Returned (Inr u1)"
      and "fst (getDownloadURL2 env version t2 w) = Returned (Inr u2)"
  shows "download_notice version u1 t1 \<in>
           set (log_output (events (snd (getLekko2 env version t1 w)))) \<and>
         sublist (number_toString (length t1)) (download_notice version u1 t1) \<and>
         sublist (take 5 t1) (download_notice version u1 t1) \<and>
         (length t1 \<noteq> length t2 \<or> take 5 t1 \<noteq> take 5 t2 \<longrightarrow>
            log_output (events (snd (getLekko2 env version t1 w))) \<noteq>
            log_output (events (snd (getLekko2 env version t2 w))))"
proof -
  let ?L = "log_output (events w) @ [''Resolving the download URL for the current platform...'']"
  from getLekko2_log [OF assms(1,2)] obtain ls1 where
    l1: "log_output (events (snd (getLekko2 env version t1 w))) =
           ?L @ download_notice version u1 t1 # ls1"
    by blast
  from getLekko2_log [OF assms(1,3)] obtain ls2 where
    l2: "log_output (events (snd (getLekko2 env version t2 w))) =
           ?L @ download_notice version u2 t2 # ls2"
    by blast
  have a: "download_notice version u1 t1 \<in>
           set (log_output (events (snd (getLekko2 env version t1 w))))"
    unfolding l1 by simp
  have b: "sublist (number_toString (length t1)) (download_notice version u1 t1)"
    unfolding download_notice_def
    by (rule sublist_eqI [where ps = "''Downloading lekko version \"'' @ version @ ''\" from '' @ u1 @
                '' using token of length ''" and ss = "'': '' @ take 5 t1"]) simp
  have c: "sublist (take 5 t1) (download_notice version u1 t1)"
    unfolding download_notice_def
    by (rule sublist_eqI [where ps = "''Downloading lekko version \"'' @ version @ ''\" from '' @ u1 @
                '' using token of length '' @ number_toString (length t1) @ '': ''" and ss = "[]"]) simp
  have d: "log_output (events (snd (getLekko2 env version t1 w))) \<noteq>
           log_output (events (snd (getLekko2 env version t2 w)))"
    if "length t1 \<noteq> length t2 \<or> take 5 t1 \<noteq> take 5 t2"
  proof
    assume "log_output (events (snd (getLekko2 env version t1 w))) =
            log_output (events (snd (getLekko2 env version t2 w)))"
    then have "download_notice version u1 t1 = download_notice version u2 t2"
      unfolding l1 l2 by simp
    then have "length t1 = length t2 \<and> take 5 t1 = take 5 t2"
      by (rule download_notice_inj)
    with that show False by blast
  qed
  from a b c d show ?thesis by blast
qed

theorem token_in_download_log_witness:
  "tc_find (example_host ''x64'' ''linux'') ''lekko'' ''0.2.15''
     (os_arch (example_host ''x64'' ''linux'')) = Inr [] \<and>
   fst (getDownloadURL2 (example_host ''x64'' ''linux'') ''0.2.15'' ''ghp_0123456789'' world0) =
     Returned (Inr ''https://api.github.com/assets/2'') \<and>
   fst (getDownloadURL2 (example_host ''x64'' ''linux'') ''0.2.15'' ''ghp_1'' world0) =
     Returned (Inr ''https://api.github.com/assets/2'') \<and>
   length ''ghp_0123456789'' \<noteq> length ''ghp_1'' \<and>
   download_notice ''0.2.15'' ''https://api.github.com/assets/2'' ''ghp_0123456789'' \<in>
     set (log_output (events (snd (getLekko2 (example_host ''x64'' ''linux'') ''0.2.15''
                                     ''ghp_0123456789'' world0)))) \<and>
   log_output (events (snd (getLekko2 (example_host ''x64'' ''linux'') ''0.2.15'' ''ghp_0123456789'' world0))) \<noteq>
   log_output (events (snd (getLekko2 (example_host ''x64'' ''linux'') ''0.2.15'' ''ghp_1'' world0)))"
proof -
  let ?h = "example_host ''x64'' ''linux''"
  have m: "tc_find ?h ''lekko'' ''0.2.15'' (os_arch ?h) = Inr []"
    by (simp add: example_host_def)
  have tag: "releaseTagForVersion ''0.2.15'' = ''v0.2.15''"
    by (simp add: releaseTagForVersion_def versionPrefix_def)
  have g: "fst (getDownloadURL2 ?h ''0.2.15'' t world0) =
             Returned (Inr ''https://api.github.com/assets/2'')" for t
    by (simp add: getDownloadURL2_def resolvePlatform_def resolveArchitecture_def resolveOS_def assetName_of_def prog_simps tag
          example_host_def example_release_def)
  have n: "length ''ghp_0123456789'' \<noteq> length ''ghp_1''"
    by simp
  from token_in_download_log [OF m g g, of "''ghp_0123456789''" "''ghp_1''"] m g n
  show ?thesis
    by blast
qed

end
